theory Spec2Isabelle
  imports Main "HOL-Library.AList" "HOL-Library.Word"
begin

section \<open>JavaScript values, exceptions and results\<close>

text \<open>
  The two clients of the repository (the extension's \<^verbatim>\<open>popup.js\<close> and the script of
  \<^verbatim>\<open>index.html\<close>) handle values that come out of \<^verbatim>\<open>response.json()\<close> and
  \<^verbatim>\<open>JSON.parse\<close>. \<open>js\<close> is the type of these values, together with
  \<^verbatim>\<open>undefined\<close>. Strings are sequences of code units below 256. A number is an
  integer double \<open>i\<close> with \<open>- (2 ^ 53) \<le> i < 2 ^ 53\<close>, the range in which every
  integer is a double of its own: \<open>Number n\<close> holds it as the 54-bit word \<open>n\<close> with
  \<open>sint n = i\<close>, and no arithmetic is done on the words. Other numbers are outside the
  model. An object is the list of its own properties; the first binding of a key is the
  property's value.
\<close>

datatype js =
    Undefined
  | Null
  | Bool bool
  | Number "54 word"
  | Str string
  | Arr "js list"
  | Obj "(string \<times> js) list"

text \<open>
  The values a \<^verbatim>\<open>catch\<close> clause can receive: an \<^verbatim>\<open>Error\<close> made by the
  program, with its message; the platform's exceptions, whose message texts belong to
  the browser; the rejection of \<^verbatim>\<open>fetch\<close>; and \<^verbatim>\<open>chrome.runtime.lastError\<close>
  with its message.
\<close>

datatype js_error =
    Error string
  | TypeError
  | SyntaxError
  | InvalidCharacterError
  | NetworkError
  | LastError string

text \<open>
  A computation returns, throws, or leaves the model: \<open>Beyond\<close> is the result of a
  step whose JavaScript result this model does not compute (arithmetic that is no
  longer exact on doubles, a non-integer literal, a code unit above 255). No
  \<^verbatim>\<open>catch\<close> catches \<open>Beyond\<close>.
\<close>

datatype 'a res = Ret 'a | Throw js_error | Beyond

definition rbind :: "'a res \<Rightarrow> ('a \<Rightarrow> 'b res) \<Rightarrow> 'b res" where
  "rbind m f = (case m of Ret x \<Rightarrow> f x | Throw e \<Rightarrow> Throw e | Beyond \<Rightarrow> Beyond)"

text \<open>\<open>2 ^ 53\<close>: up to it, every integer is a double and integer arithmetic is exact.\<close>

definition max_safe :: int where
  "max_safe = 9007199254740992"

subsection \<open>ToString\<close>

function show_digits :: "int \<Rightarrow> string" where
  "show_digits n =
     (if n < 10 then [char_of (48 + n)]
      else show_digits (n div 10) @ [char_of (48 + n mod 10)])"
  by pat_completeness auto
termination
  by (relation "measure (\<lambda>n. nat n)") auto

definition show_int :: "int \<Rightarrow> string" where
  "show_int i = (if i < 0 then CHR ''-'' # show_digits (- i) else show_digits i)"

text \<open>
  \<^verbatim>\<open>ToString\<close>, as string concatenation, template literals and
  \<^verbatim>\<open>localStorage.setItem\<close> apply it. A number of the model is below
  \<open>10 ^ 21\<close> in magnitude and is printed in decimal. An array is joined with commas, its
  \<^verbatim>\<open>null\<close> and \<^verbatim>\<open>undefined\<close> elements giving the empty string. A plain object
  gives \<^verbatim>\<open>[object Object]\<close> through \<^verbatim>\<open>Object.prototype.toString\<close>, unless it has
  an own property \<^verbatim>\<open>toString\<close>: a value parsed from JSON is never callable, and
  \<^verbatim>\<open>valueOf\<close> returns no primitive, so the conversion throws a TypeError.
\<close>

fun join_strings :: "string res list \<Rightarrow> string res" where
  "join_strings [] = Ret []"
| "join_strings [r] = r"
| "join_strings (r # rs) =
     rbind r (\<lambda>s. rbind (join_strings rs) (\<lambda>t. Ret (s @ '','' @ t)))"

fun to_string :: "js \<Rightarrow> string res" where
  "to_string Undefined = Ret ''undefined''"
| "to_string Null = Ret ''null''"
| "to_string (Bool b) = Ret (if b then ''true'' else ''false'')"
| "to_string (Number n) = Ret (show_int (sint n))"
| "to_string (Str s) = Ret s"
| "to_string (Arr xs) =
     join_strings (map (\<lambda>x. if x = Undefined \<or> x = Null then Ret [] else to_string x) xs)"
| "to_string (Obj kvs) =
     (if map_of kvs ''toString'' = None then Ret ''[object Object]'' else Throw TypeError)"

text \<open>\<^verbatim>\<open>prefix + value\<close> with a string literal on the left.\<close>

definition js_plus :: "string \<Rightarrow> js \<Rightarrow> string res" where
  "js_plus p v = rbind (to_string v) (\<lambda>s. Ret (p @ s))"

text \<open>\<^verbatim>\<open>!value\<close> is true on the falsy values.\<close>

definition falsy :: "js \<Rightarrow> bool" where
  "falsy v = (v = Undefined \<or> v = Null \<or> v = Bool False \<or> v = Number 0 \<or> v = Str [])"

text \<open>
  Property access \<^verbatim>\<open>value.name\<close> for the names the clients read
  (\<^verbatim>\<open>status\<close>, \<^verbatim>\<open>message\<close>, \<^verbatim>\<open>access_token\<close>, \<^verbatim>\<open>refresh_token\<close>,
  \<^verbatim>\<open>exp\<close>), none of which a prototype defines: a TypeError on \<^verbatim>\<open>null\<close> and
  \<^verbatim>\<open>undefined\<close>, the own property of an object, \<^verbatim>\<open>undefined\<close> otherwise.
\<close>

definition get_prop :: "js \<Rightarrow> string \<Rightarrow> js res" where
  "get_prop v k =
     (case v of
        Undefined \<Rightarrow> Throw TypeError
      | Null \<Rightarrow> Throw TypeError
      | Obj kvs \<Rightarrow> Ret (case map_of kvs k of None \<Rightarrow> Undefined | Some x \<Rightarrow> x)
      | _ \<Rightarrow> Ret Undefined)"

subsection \<open>\<^verbatim>\<open>String.prototype.split\<close> and \<^verbatim>\<open>atob\<close>\<close>

fun split_on :: "char \<Rightarrow> string \<Rightarrow> string list" where
  "split_on c [] = [[]]"
| "split_on c (x # xs) =
     (if x = c then [] # split_on c xs
      else (case split_on c xs of
              [] \<Rightarrow> [[x]]
            | s # ss \<Rightarrow> (x # s) # ss))"

text \<open>\<^verbatim>\<open>token.split('.')\<close>: only a string has the method.\<close>

definition js_split :: "js \<Rightarrow> string list res" where
  "js_split token =
     (case token of Str s \<Rightarrow> Ret (split_on CHR ''.'' s) | _ \<Rightarrow> Throw TypeError)"

text \<open>\<^verbatim>\<open>array[i]\<close>: \<^verbatim>\<open>undefined\<close> beyond the end.\<close>

definition js_index :: "string list \<Rightarrow> nat \<Rightarrow> js" where
  "js_index xs i = (if i < length xs then Str (xs ! i) else Undefined)"

definition b64_index :: "char \<Rightarrow> int option" where
  "b64_index c =
     (let n = (of_char c :: int) in
      if 65 \<le> n \<and> n \<le> 90 then Some (n - 65)
      else if 97 \<le> n \<and> n \<le> 122 then Some (n - 71)
      else if 48 \<le> n \<and> n \<le> 57 then Some (n + 4)
      else if n = 43 then Some 62
      else if n = 47 then Some 63
      else None)"

fun b64_bytes :: "int list \<Rightarrow> string" where
  "b64_bytes (a # b # c # d # rest) =
     (let n = ((a * 64 + b) * 64 + c) * 64 + d in
      char_of (n div 65536) # char_of (n div 256 mod 256) # char_of (n mod 256) # b64_bytes rest)"
| "b64_bytes [a, b, c] =
     (let n = ((a * 64 + b) * 64 + c) div 4 in [char_of (n div 256), char_of (n mod 256)])"
| "b64_bytes [a, b] = [char_of ((a * 64 + b) div 16)]"
| "b64_bytes _ = []"

definition is_ascii_ws :: "char \<Rightarrow> bool" where
  "is_ascii_ws c = (of_char c \<in> {9, 10, 12, 13, 32 :: int})"

definition strip_padding :: "string \<Rightarrow> string" where
  "strip_padding d =
     (if length d mod 4 = 0 \<and> d \<noteq> [] \<and> last d = CHR ''=''
      then (if butlast d \<noteq> [] \<and> last (butlast d) = CHR ''='' then butlast (butlast d)
            else butlast d)
      else d)"

text \<open>
  \<^verbatim>\<open>atob\<close> is the forgiving base64 decoding of the argument's string: ASCII
  whitespace is dropped, one or two padding characters are removed when the length is a
  multiple of four, and a remaining length of 1 modulo 4 or a character outside the
  alphabet throws.
\<close>

definition atob :: "js \<Rightarrow> string res" where
  "atob v =
     rbind (to_string v) (\<lambda>s.
       let d = strip_padding (filter (\<lambda>c. \<not> is_ascii_ws c) s) in
       if length d mod 4 = 1 then Throw InvalidCharacterError
       else if list_all (\<lambda>c. b64_index c \<noteq> None) d
         then Ret (b64_bytes (map (\<lambda>c. the (b64_index c)) d))
       else Throw InvalidCharacterError)"

subsection \<open>\<^verbatim>\<open>JSON.parse\<close>\<close>

definition is_json_ws :: "char \<Rightarrow> bool" where
  "is_json_ws c = (of_char c \<in> {9, 10, 13, 32 :: int})"

definition skip_ws :: "string \<Rightarrow> string" where
  "skip_ws s = dropWhile is_json_ws s"

definition is_digit :: "char \<Rightarrow> bool" where
  "is_digit c = (48 \<le> (of_char c :: int) \<and> (of_char c :: int) \<le> 57)"

definition hex_value :: "char \<Rightarrow> int option" where
  "hex_value c =
     (let n = (of_char c :: int) in
      if 48 \<le> n \<and> n \<le> 57 then Some (n - 48)
      else if 97 \<le> n \<and> n \<le> 102 then Some (n - 87)
      else if 65 \<le> n \<and> n \<le> 70 then Some (n - 55)
      else None)"

definition escape_char :: "char \<Rightarrow> char option" where
  "escape_char c =
     (if c = CHR 0x22 \<or> c = CHR 0x5C \<or> c = CHR ''/'' then Some c
      else if c = CHR ''b'' then Some (CHR 0x08)
      else if c = CHR ''f'' then Some (CHR 0x0C)
      else if c = CHR ''n'' then Some (CHR 0x0A)
      else if c = CHR ''r'' then Some (CHR 0x0D)
      else if c = CHR ''t'' then Some (CHR 0x09)
      else None)"

datatype string_mode = Plain | Escape | Hex nat int

text \<open>
  The characters of a string literal after its opening quote, read one at a time:
  \<open>Escape\<close> after a backslash, \<open>Hex k v\<close> with \<open>k\<close> hexadecimal digits of a
  \<^verbatim>\<open>\u\<close> escape still to come. The result is the string and the text after the
  closing quote.
\<close>

fun parse_chars :: "string_mode \<Rightarrow> string \<Rightarrow> string \<Rightarrow> (string \<times> string) res" where
  "parse_chars m acc [] = Throw SyntaxError"
| "parse_chars Plain acc (c # cs) =
     (if c = CHR 0x22 then Ret (rev acc, cs)
      else if c = CHR 0x5C then parse_chars Escape acc cs
      else if (of_char c :: int) < 32 then Throw SyntaxError
      else parse_chars Plain (c # acc) cs)"
| "parse_chars Escape acc (c # cs) =
     (if c = CHR ''u'' then parse_chars (Hex 4 0) acc cs
      else (case escape_char c of
              None \<Rightarrow> Throw SyntaxError
            | Some d \<Rightarrow> parse_chars Plain (d # acc) cs))"
| "parse_chars (Hex k v) acc (c # cs) =
     (case hex_value c of
        None \<Rightarrow> Throw SyntaxError
      | Some h \<Rightarrow>
          (if k \<le> 1
           then (if v * 16 + h < 256 then parse_chars Plain (char_of (v * 16 + h) # acc) cs
                 else Beyond)
           else parse_chars (Hex (k - 1) (v * 16 + h)) acc cs))"

definition digits_value :: "string \<Rightarrow> int" where
  "digits_value ds = foldl (\<lambda>n c. 10 * n + (of_char c - 48)) 0 ds"

text \<open>
  A number literal. An integer literal below \<open>2 ^ 53\<close> in magnitude is its value; a
  literal with a fraction or an exponent, or a larger integer, is left to \<open>Beyond\<close>.
\<close>

definition parse_number :: "string \<Rightarrow> (js \<times> string) res" where
  "parse_number s =
     (let neg = (s \<noteq> [] \<and> hd s = CHR ''-'');
          s1 = (if neg then tl s else s);
          ds = takeWhile is_digit s1;
          rest = dropWhile is_digit s1
      in if ds = [] then Throw SyntaxError
         else if hd ds = CHR ''0'' \<and> 1 < length ds then Throw SyntaxError
         else if rest \<noteq> [] \<and> hd rest \<in> {CHR ''.'', CHR ''e'', CHR ''E''} then Beyond
         else if max_safe \<le> digits_value ds then Beyond
         else Ret (Number (word_of_int (if neg then - digits_value ds else digits_value ds)),
                   rest))"

text \<open>
  The value grammar, by recursive descent. The first argument bounds the number of
  nested and successive values still to be read; \<open>JSON_parse\<close> starts it above what
  a text of that length can hold, and running out of it is \<open>Beyond\<close>.
\<close>

fun parse_value :: "nat \<Rightarrow> string \<Rightarrow> (js \<times> string) res"
  and parse_elements :: "nat \<Rightarrow> js list \<Rightarrow> string \<Rightarrow> (js \<times> string) res"
  and parse_members :: "nat \<Rightarrow> (string \<times> js) list \<Rightarrow> string \<Rightarrow> (js \<times> string) res" where
  "parse_value 0 s = Beyond"
| "parse_value (Suc n) s =
     (case skip_ws s of
        [] \<Rightarrow> Throw SyntaxError
      | c # cs \<Rightarrow>
          if c = CHR ''{'' then
            (case skip_ws cs of
               [] \<Rightarrow> Throw SyntaxError
             | d # ds \<Rightarrow> if d = CHR ''}'' then Ret (Obj [], ds) else parse_members n [] (d # ds))
          else if c = CHR ''['' then
            (case skip_ws cs of
               [] \<Rightarrow> Throw SyntaxError
             | d # ds \<Rightarrow> if d = CHR '']'' then Ret (Arr [], ds) else parse_elements n [] (d # ds))
          else if c = CHR 0x22 then
            (case parse_chars Plain [] cs of
               Ret (str, rest) \<Rightarrow> Ret (Str str, rest)
             | Throw e \<Rightarrow> Throw e
             | Beyond \<Rightarrow> Beyond)
          else if take 4 (c # cs) = ''true'' then Ret (Bool True, drop 4 (c # cs))
          else if take 5 (c # cs) = ''false'' then Ret (Bool False, drop 5 (c # cs))
          else if take 4 (c # cs) = ''null'' then Ret (Null, drop 4 (c # cs))
          else if c = CHR ''-'' \<or> is_digit c then parse_number (c # cs)
          else Throw SyntaxError)"
| "parse_elements 0 acc s = Beyond"
| "parse_elements (Suc n) acc s =
     (case parse_value n s of
        Ret (v, rest) \<Rightarrow>
          (case skip_ws rest of
             [] \<Rightarrow> Throw SyntaxError
           | c # cs \<Rightarrow>
               if c = CHR '','' then parse_elements n (acc @ [v]) cs
               else if c = CHR '']'' then Ret (Arr (acc @ [v]), cs)
               else Throw SyntaxError)
      | Throw e \<Rightarrow> Throw e
      | Beyond \<Rightarrow> Beyond)"
| "parse_members 0 acc s = Beyond"
| "parse_members (Suc n) acc s =
     (case skip_ws s of
        [] \<Rightarrow> Throw SyntaxError
      | q # cs \<Rightarrow>
          if q \<noteq> CHR 0x22 then Throw SyntaxError
          else
            (case parse_chars Plain [] cs of
               Ret (k, rest) \<Rightarrow>
                 (case skip_ws rest of
                    [] \<Rightarrow> Throw SyntaxError
                  | d # ds \<Rightarrow>
                      if d \<noteq> CHR '':'' then Throw SyntaxError
                      else
                        (case parse_value n ds of
                           Ret (v, rest2) \<Rightarrow>
                             (case skip_ws rest2 of
                                [] \<Rightarrow> Throw SyntaxError
                              | e # es \<Rightarrow>
                                  if e = CHR '','' then parse_members n (acc @ [(k, v)]) es
                                  else if e = CHR ''}'' then Ret (Obj (rev (acc @ [(k, v)])), es)
                                  else Throw SyntaxError)
                         | Throw e \<Rightarrow> Throw e
                         | Beyond \<Rightarrow> Beyond))
             | Throw e \<Rightarrow> Throw e
             | Beyond \<Rightarrow> Beyond))"

text \<open>
  \<^verbatim>\<open>JSON.parse(text)\<close>: one value, whitespace around it, nothing after it. The
  members of an object are kept last first, so that of two members with one key the
  later one is the property, as in JavaScript.
\<close>

definition JSON_parse :: "string \<Rightarrow> js res" where
  "JSON_parse s =
     (case parse_value (2 * length s + 2) s of
        Ret (v, rest) \<Rightarrow> if skip_ws rest = [] then Ret v else Throw SyntaxError
      | Throw e \<Rightarrow> Throw e
      | Beyond \<Rightarrow> Beyond)"

subsection \<open>Numbers: \<^verbatim>\<open>payload.exp * 1000\<close> and \<^verbatim>\<open>currentTime > expiry\<close>\<close>

text \<open>
  The result of an arithmetic expression is an integer double or \<^verbatim>\<open>NaN\<close>.
  \<open>to_number\<close> is \<^verbatim>\<open>ToNumber\<close> where its result is one of these without reading
  a string as a number; \<open>js_times\<close> is the product where it is exact.
\<close>

datatype number = Num int | NaN

definition to_number :: "js \<Rightarrow> number res" where
  "to_number v =
     (case v of
        Undefined \<Rightarrow> Ret NaN
      | Null \<Rightarrow> Ret (Num 0)
      | Bool b \<Rightarrow> Ret (Num (if b then 1 else 0))
      | Number n \<Rightarrow> Ret (Num (sint n))
      | Str s \<Rightarrow> Beyond
      | Arr xs \<Rightarrow> Beyond
      | Obj kvs \<Rightarrow> if map_of kvs ''toString'' = None then Ret NaN else Throw TypeError)"

definition js_times :: "js \<Rightarrow> int \<Rightarrow> number res" where
  "js_times v k =
     rbind (to_number v) (\<lambda>x.
       case x of
         NaN \<Rightarrow> Ret NaN
       | Num n \<Rightarrow> if \<bar>n * k\<bar> \<le> max_safe then Ret (Num (n * k)) else Beyond)"

text \<open>\<^verbatim>\<open>a > b\<close> with an integer on the left: false when \<open>b\<close> is \<^verbatim>\<open>NaN\<close>.\<close>

definition js_gt :: "int \<Rightarrow> number \<Rightarrow> bool" where
  "js_gt a b = (case b of Num n \<Rightarrow> a > n | NaN \<Rightarrow> False)"

section \<open>The network and the browser\<close>

text \<open>
  A request is what the program hands to \<^verbatim>\<open>fetch\<close>; its body is the value given to
  \<^verbatim>\<open>JSON.stringify\<close>. A response has a status code and the value that
  \<^verbatim>\<open>response.json()\<close> resolves to, \<open>None\<close> when the body is not JSON.
\<close>

record request =
  req_url :: string
  req_method :: string
  req_headers :: "(string \<times> string) list"
  req_body :: "js option"

datatype response = Response (status_code: int) (json_body: "js option")

text \<open>\<^verbatim>\<open>response.ok\<close>\<close>

definition ok :: "response \<Rightarrow> bool" where
  "ok r = (200 \<le> status_code r \<and> status_code r \<le> 299)"

text \<open>\<^verbatim>\<open>await response.json()\<close>\<close>

definition json :: "response \<Rightarrow> js res" where
  "json r = (case json_body r of None \<Rightarrow> Throw SyntaxError | Some v \<Rightarrow> Ret v)"

text \<open>
  What both clients share of the browser: the answers the network gives to the
  \<^verbatim>\<open>fetch\<close> calls still to come, in order (\<open>None\<close>, and any call after the last
  answer, is a rejected \<^verbatim>\<open>fetch\<close>); the requests sent so far; and
  \<^verbatim>\<open>localStorage\<close>. A handler runs to its end before the next one starts.
\<close>

record browser =
  network :: "response option list"
  trace :: "request list"
  localStorage :: "(string \<times> string) list"

text \<open>
  A step of a handler returns a value, throws, or leaves the model, and the first two
  leave a state behind.
\<close>

datatype ('a, 's) outcome = Returns 'a 's | Throws js_error 's | Outside

definition bind :: "('a, 's) outcome \<Rightarrow> ('a \<Rightarrow> 's \<Rightarrow> ('b, 's) outcome) \<Rightarrow> ('b, 's) outcome" where
  "bind m f = (case m of Returns x s \<Rightarrow> f x s | Throws e s \<Rightarrow> Throws e s | Outside \<Rightarrow> Outside)"

text \<open>A step without effect, in the state \<open>s\<close>.\<close>

definition lift :: "'a res \<Rightarrow> 's \<Rightarrow> ('a, 's) outcome" where
  "lift m s = (case m of Ret x \<Rightarrow> Returns x s | Throw e \<Rightarrow> Throws e s | Beyond \<Rightarrow> Outside)"

text \<open>The state a run ends in, if the run stays within the model.\<close>

definition final :: "('a, 's) outcome \<Rightarrow> 's option" where
  "final out = (case out of Returns x s \<Rightarrow> Some s | Throws e s \<Rightarrow> Some s | Outside \<Rightarrow> None)"

text \<open>\<^verbatim>\<open>try { m } catch (error) { h }\<close>\<close>

definition try_catch ::
  "('a, 's) outcome \<Rightarrow> (js_error \<Rightarrow> 's \<Rightarrow> ('a, 's) outcome) \<Rightarrow> ('a, 's) outcome" where
  "try_catch m h = (case m of Returns x s \<Rightarrow> Returns x s | Throws e s \<Rightarrow> h e s | Outside \<Rightarrow> Outside)"

text \<open>
  \<^verbatim>\<open>await fetch(url, options)\<close>: the request is sent, and the next answer comes back
  or the call is rejected.
\<close>

definition sent :: "request \<Rightarrow> 's browser_scheme \<Rightarrow> 's browser_scheme" where
  "sent req st = st\<lparr>network := tl (network st), trace := trace st @ [req]\<rparr>"

definition fetch ::
  "request \<Rightarrow> 's browser_scheme \<Rightarrow> (response, 's browser_scheme) outcome" where
  "fetch req st =
     (case network st of
        Some r # rs \<Rightarrow> Returns r (sent req st)
      | _ \<Rightarrow> Throws NetworkError (sent req st))"

text \<open>\<^verbatim>\<open>response.ok && result.status === 'ok'\<close>\<close>

definition ok_and_status_ok :: "response \<Rightarrow> js \<Rightarrow> bool res" where
  "ok_and_status_ok response result =
     (if ok response then rbind (get_prop result ''status'') (\<lambda>s. Ret (s = Str ''ok''))
      else Ret False)"

text \<open>
  \<^verbatim>\<open>String.prototype.trim\<close> on code units below 256: tab, line feed, vertical tab,
  form feed, carriage return, space and no-break space.
\<close>

definition is_js_ws :: "char \<Rightarrow> bool" where
  "is_js_ws c = (of_char c \<in> {9, 10, 11, 12, 13, 32, 160 :: int})"

definition trim :: "string \<Rightarrow> string" where
  "trim s = rev (dropWhile is_js_ws (rev (dropWhile is_js_ws s)))"

section \<open>The extension: \<^verbatim>\<open>popup.js\<close>\<close>

text \<open>
  The token pair as \<^verbatim>\<open>storeTokens\<close> writes it, and the state of the popup:
  \<^verbatim>\<open>chrome.storage.local\<close>, the two input fields, whether the logout button has the
  class \<^verbatim>\<open>hidden\<close>, and the text and class of the status line (\<open>None\<close> before the
  first \<^verbatim>\<open>setStatus\<close>). Writes to \<^verbatim>\<open>chrome.storage.local\<close> succeed and keep
  values as written; the timer that hides the status line after five seconds is not
  part of the state.
\<close>

record tokens =
  access_token :: js
  refresh_token :: js
  access_token_expiry :: number

text \<open>
  A status text: a string, or a prefix followed by the message of a platform exception.
\<close>

datatype message = Text string | Platform_message string js_error

record popup = browser +
  storage :: "(string \<times> tokens) list"
  username_input :: string
  password_input :: string
  logout_hidden :: bool
  status :: "(message \<times> string) option"

text \<open>
  What a handler reads from outside the state: \<^verbatim>\<open>Date.now()\<close>, and the message of
  \<^verbatim>\<open>chrome.runtime.lastError\<close> in the callback of \<^verbatim>\<open>chrome.storage.local.get\<close>,
  if the read failed.
\<close>

record env =
  date_now :: int
  runtime_lastError :: "string option"

definition base_url :: string where
  "base_url = ''https://ranfysvalle02--jwt-auth-api-fastapi-app.modal.run''"

definition json_headers :: "(string \<times> string) list" where
  "json_headers = [(''Content-Type'', ''application/json'')]"

text \<open>\<^verbatim>\<open>prefix + error.message\<close>\<close>

definition plus_error_message :: "string \<Rightarrow> js_error \<Rightarrow> message" where
  "plus_error_message p e =
     (case e of
        Error m \<Rightarrow> Text (p @ m)
      | LastError m \<Rightarrow> Text (p @ m)
      | _ \<Rightarrow> Platform_message p e)"

text \<open>
  \<^verbatim>\<open>statusDiv.textContent = value\<close> for a value that is not known to be a string:
  the attribute is a nullable string, so \<^verbatim>\<open>undefined\<close> and \<^verbatim>\<open>null\<close> give the
  empty text, and any other value is converted by \<^verbatim>\<open>ToString\<close>, which may throw.
\<close>

definition textContent :: "js \<Rightarrow> string res" where
  "textContent v = (if v = Undefined \<or> v = Null then Ret [] else to_string v)"

definition setStatus :: "message \<Rightarrow> string \<Rightarrow> popup \<Rightarrow> popup" where
  "setStatus msg type st =
     st\<lparr>status := Some (msg, if type = ''error'' then ''error'' else ''success'')\<rparr>"

definition showLogoutButton :: "popup \<Rightarrow> popup" where
  "showLogoutButton st = st\<lparr>logout_hidden := False\<rparr>"

definition hideLogoutButton :: "popup \<Rightarrow> popup" where
  "hideLogoutButton st = st\<lparr>logout_hidden := True\<rparr>"

definition getTokenExpiry :: "js \<Rightarrow> number res" where
  "getTokenExpiry token =
     rbind (js_split token) (\<lambda>segments.
     rbind (atob (js_index segments 1)) (\<lambda>text.
     rbind (JSON_parse text) (\<lambda>payload.
     rbind (get_prop payload ''exp'') (\<lambda>exp.
     js_times exp 1000))))"

definition storeTokens :: "js \<Rightarrow> js \<Rightarrow> popup \<Rightarrow> (unit, popup) outcome" where
  "storeTokens accessToken refreshToken st =
     bind (lift (getTokenExpiry accessToken) st) (\<lambda>expiry st.
       Returns ()
         (st\<lparr>storage :=
              AList.update ''auth_tokens''
                \<lparr>access_token = accessToken, refresh_token = refreshToken,
                 access_token_expiry = expiry\<rparr>
                (storage st)\<rparr>))"

definition getStoredTokens :: "env \<Rightarrow> popup \<Rightarrow> (tokens option, popup) outcome" where
  "getStoredTokens env st =
     (case runtime_lastError env of
        Some m \<Rightarrow> Throws (LastError m) st
      | None \<Rightarrow> Returns (map_of (storage st) ''auth_tokens'') st)"

definition checkLoginStatus :: "env \<Rightarrow> popup \<Rightarrow> (unit, popup) outcome" where
  "checkLoginStatus env st =
     try_catch
       (bind (getStoredTokens env st) (\<lambda>tokens st.
          if tokens \<noteq> None then Returns () (showLogoutButton st)
          else Returns () (hideLogoutButton st)))
       (\<lambda>error st. Returns () (hideLogoutButton st))"

definition register_request :: "string \<Rightarrow> string \<Rightarrow> request" where
  "register_request username password =
     \<lparr>req_url = base_url @ ''/register'', req_method = ''POST'', req_headers = json_headers,
      req_body = Some (Obj [(''username'', Str username), (''password'', Str password)])\<rparr>"

definition register :: "popup \<Rightarrow> (unit, popup) outcome" where
  "register st =
     (let username = trim (username_input st);
          password = password_input st
      in if username = [] \<or> password = []
         then Returns () (setStatus (Text ''Please enter a username and password.'') ''error'' st)
         else if length password < 8
         then Returns ()
                (setStatus (Text ''Password must be at least 8 characters long.'') ''error'' st)
         else
           try_catch
             (bind (fetch (register_request username password) st) (\<lambda>response st.
              bind (lift (json response) st) (\<lambda>result st.
              bind (lift (ok_and_status_ok response result) st) (\<lambda>success st.
                if success
                then Returns ()
                       ((setStatus (Text ''Registration successful.'') ''success''
                           (st\<lparr>localStorage :=
                                 AList.update ''username'' username (localStorage st)\<rparr>))
                        \<lparr>password_input := []\<rparr>)
                else
                  bind (lift (rbind (get_prop result ''message'')
                                (js_plus ''Registration failed: '')) st) (\<lambda>text st.
                    Returns () (setStatus (Text text) ''error'' st))))))
             (\<lambda>error st.
                Returns ()
                  (setStatus (plus_error_message ''Registration failed: '' error) ''error'' st)))"

definition authenticate_request :: "string \<Rightarrow> string \<Rightarrow> request" where
  "authenticate_request username password =
     \<lparr>req_url = base_url @ ''/authenticate'', req_method = ''POST'', req_headers = json_headers,
      req_body = Some (Obj [(''username'', Str username), (''password'', Str password)])\<rparr>"

definition login :: "popup \<Rightarrow> (unit, popup) outcome" where
  "login st =
     (let username = trim (username_input st);
          password = password_input st
      in if username = [] \<or> password = []
         then Returns ()
                (setStatus (Text ''Please enter your username and password.'') ''error'' st)
         else
           try_catch
             (bind (fetch (authenticate_request username password) st) (\<lambda>response st.
              bind (lift (json response) st) (\<lambda>result st.
              bind (lift (ok_and_status_ok response result) st) (\<lambda>success st.
                if success
                then
                  bind (lift (get_prop result ''access_token'') st) (\<lambda>access st.
                  bind (lift (get_prop result ''refresh_token'') st) (\<lambda>refresh st.
                  bind (storeTokens access refresh st) (\<lambda>_ st.
                    Returns ()
                      ((showLogoutButton
                          (setStatus (Text ''Authentication successful.'') ''success'' st))
                       \<lparr>password_input := []\<rparr>))))
                else
                  bind (lift (rbind (get_prop result ''message'')
                                (js_plus ''Authentication failed: '')) st) (\<lambda>text st.
                    Returns () (setStatus (Text text) ''error'' st))))))
             (\<lambda>error st.
                Returns ()
                  (setStatus (plus_error_message ''Authentication failed: '' error) ''error'' st)))"

definition logout :: "popup \<Rightarrow> (unit, popup) outcome" where
  "logout st =
     Returns ()
       (hideLogoutButton
          (setStatus (Text ''Logged out successfully.'') ''success''
             (st\<lparr>storage := AList.delete ''auth_tokens'' (storage st),
                 localStorage := AList.delete ''username'' (localStorage st)\<rparr>)))"

definition refresh_request :: "js \<Rightarrow> request" where
  "refresh_request refreshToken =
     \<lparr>req_url = base_url @ ''/refresh'', req_method = ''POST'', req_headers = json_headers,
      req_body = Some (Obj [(''refresh_token'', refreshToken)])\<rparr>"

definition refreshAccessToken :: "js \<Rightarrow> popup \<Rightarrow> (js \<times> js, popup) outcome" where
  "refreshAccessToken refreshToken st =
     bind (fetch (refresh_request refreshToken) st) (\<lambda>response st.
     bind (lift (json response) st) (\<lambda>result st.
     bind (lift (ok_and_status_ok response result) st) (\<lambda>success st.
       if success
       then
         bind (lift (get_prop result ''access_token'') st) (\<lambda>access st.
         bind (lift (get_prop result ''refresh_token'') st) (\<lambda>refresh st.
         bind (storeTokens access refresh st) (\<lambda>_ st.
           Returns (access, refresh) st)))
       else
         bind (lift (rbind (get_prop result ''message'')
                       (js_plus ''Failed to refresh token: '')) st) (\<lambda>text st.
           Throws (Error text) st))))"

definition getAccessToken :: "env \<Rightarrow> popup \<Rightarrow> (js, popup) outcome" where
  "getAccessToken env st =
     bind (getStoredTokens env st) (\<lambda>tokens st.
       case tokens of
         None \<Rightarrow> Throws (Error ''No tokens found. Please login.'') st
       | Some t \<Rightarrow>
           if js_gt (date_now env) (access_token_expiry t)
           then bind (refreshAccessToken (refresh_token t) st) (\<lambda>newTokens st.
                  Returns (fst newTokens) st)
           else Returns (access_token t) st)"

definition protected_request :: "string \<Rightarrow> request" where
  "protected_request authorization =
     \<lparr>req_url = base_url @ ''/protected'', req_method = ''GET'',
      req_headers = [(''Authorization'', authorization)], req_body = None\<rparr>"

definition accessProtected :: "env \<Rightarrow> popup \<Rightarrow> (unit, popup) outcome" where
  "accessProtected env st =
     try_catch
       (bind (getAccessToken env st) (\<lambda>accessToken st.
        bind (lift (js_plus ''Bearer '' accessToken) st) (\<lambda>authorization st.
        bind (fetch (protected_request authorization) st) (\<lambda>response st.
        bind (lift (json response) st) (\<lambda>result st.
        bind (lift (ok_and_status_ok response result) st) (\<lambda>success st.
          if success
          then bind (lift (rbind (get_prop result ''message'') textContent) st) (\<lambda>text st.
                 Returns () (setStatus (Text text) ''success'' st))
          else
            bind (lift (rbind (get_prop result ''message'')
                          (js_plus ''Failed to access protected resource: '')) st) (\<lambda>text st.
              Returns () (setStatus (Text text) ''error'' st))))))))
       (\<lambda>error st. Returns () (setStatus (plus_error_message [] error) ''error'' st))"

section \<open>The page: the script of \<^verbatim>\<open>index.html\<close>\<close>

text \<open>
  The page keeps the two tokens in the variables \<^verbatim>\<open>accessToken\<close> and
  \<^verbatim>\<open>refreshToken\<close> and under two keys of \<^verbatim>\<open>localStorage\<close>. Its state has, besides,
  the texts shown by \<^verbatim>\<open>alert\<close>, the lines written by \<^verbatim>\<open>console.error\<close>, and
  whether each of the two sections has the class \<^verbatim>\<open>hidden\<close>; the class
  \<^verbatim>\<open>section-visible\<close> and the transition listener are not part of the state. The
  functions of the page that share a name with one of the extension carry the suffix
  \<open>_html\<close>.
\<close>

record page = browser +
  accessToken :: js
  refreshToken :: js
  alerts :: "string list"
  console :: "(string \<times> js_error) list"
  authSection_hidden :: bool
  welcomeSection_hidden :: bool

definition BASE_URL :: string where
  "BASE_URL = ''https://ranfysvalle02--wishlist-api-fastapi-app.modal.run''"

text \<open>\<^verbatim>\<open>localStorage.setItem(key, value)\<close> stores the string of the value.\<close>

definition setItem :: "string \<Rightarrow> js \<Rightarrow> page \<Rightarrow> (unit, page) outcome" where
  "setItem key v st =
     bind (lift (to_string v) st) (\<lambda>s st.
       Returns () (st\<lparr>localStorage := AList.update key s (localStorage st)\<rparr>))"

definition storeTokens_html :: "js \<Rightarrow> js \<Rightarrow> page \<Rightarrow> (unit, page) outcome" where
  "storeTokens_html access refresh st =
     bind (Returns () (st\<lparr>accessToken := access, refreshToken := refresh\<rparr>)) (\<lambda>_ st.
     bind (setItem ''accessToken'' (accessToken st) st) (\<lambda>_ st.
     setItem ''refreshToken'' (refreshToken st) st))"

text \<open>\<^verbatim>\<open>localStorage.getItem(key) || ''\<close>\<close>

definition getItem_or_empty :: "string \<Rightarrow> page \<Rightarrow> js" where
  "getItem_or_empty key st =
     (case map_of (localStorage st) key of None \<Rightarrow> Str [] | Some s \<Rightarrow> Str s)"

definition loadTokens :: "page \<Rightarrow> page" where
  "loadTokens st =
     st\<lparr>accessToken := getItem_or_empty ''accessToken'' st,
        refreshToken := getItem_or_empty ''refreshToken'' st\<rparr>"

definition clearTokens :: "page \<Rightarrow> page" where
  "clearTokens st =
     st\<lparr>accessToken := Str [], refreshToken := Str [],
        localStorage :=
          AList.delete ''refreshToken'' (AList.delete ''accessToken'' (localStorage st))\<rparr>"

definition isAuthenticated :: "page \<Rightarrow> bool" where
  "isAuthenticated st = (\<not> falsy (accessToken st))"

definition showSection_auth :: "page \<Rightarrow> page" where
  "showSection_auth st = st\<lparr>authSection_hidden := False\<rparr>"

definition hideSection_welcome :: "page \<Rightarrow> page" where
  "hideSection_welcome st =
     (if welcomeSection_hidden st then st else st\<lparr>welcomeSection_hidden := True\<rparr>)"

definition logout_html :: "page \<Rightarrow> page" where
  "logout_html st =
     hideSection_welcome
       (showSection_auth
          ((clearTokens st)
           \<lparr>localStorage := AList.delete ''username'' (localStorage (clearTokens st))\<rparr>))"

text \<open>
  What \<open>logout_html\<close> leaves: no token in the variables or in \<^verbatim>\<open>localStorage\<close>, no
  username, the login section shown and the welcome section hidden.
\<close>

definition logged_out :: "page \<Rightarrow> bool" where
  "logged_out st =
     (accessToken st = Str [] \<and> refreshToken st = Str [] \<and>
      map_of (localStorage st) ''accessToken'' = None \<and>
      map_of (localStorage st) ''refreshToken'' = None \<and>
      map_of (localStorage st) ''username'' = None \<and>
      \<not> authSection_hidden st \<and> welcomeSection_hidden st)"

definition refresh_request_html :: "js \<Rightarrow> request" where
  "refresh_request_html token =
     \<lparr>req_url = BASE_URL @ ''/refresh'', req_method = ''POST'', req_headers = json_headers,
      req_body = Some (Obj [(''refresh_token'', token)])\<rparr>"

definition refreshAccessToken_html :: "page \<Rightarrow> (bool, page) outcome" where
  "refreshAccessToken_html st =
     (if falsy (refreshToken st) then Returns False st
      else
        try_catch
          (bind (fetch (refresh_request_html (refreshToken st)) st) (\<lambda>response st.
             if ok response
             then
               bind (lift (json response) st) (\<lambda>data st.
               bind (lift (get_prop data ''access_token'') st) (\<lambda>access st.
               bind (lift (get_prop data ''refresh_token'') st) (\<lambda>refresh st.
               bind (storeTokens_html access refresh st) (\<lambda>_ st.
                 Returns True st))))
             else Returns False (clearTokens st)))
          (\<lambda>error st.
             Returns False
               (clearTokens
                  (st\<lparr>console := console st @ [(''Error refreshing token:'', error)]\<rparr>))))"

text \<open>
  The options of a call: the method, the headers if the caller gave any, and the body;
  \<open>authorized\<close> is the request that \<^verbatim>\<open>fetch(url, options)\<close> sends once
  \<^verbatim>\<open>options.headers['Authorization']\<close> is set.
\<close>

record fetch_options =
  opt_method :: string
  opt_headers :: "(string \<times> string) list option"
  opt_body :: "js option"

definition authorized :: "string \<Rightarrow> fetch_options \<Rightarrow> string \<Rightarrow> request" where
  "authorized url options authorization =
     \<lparr>req_url = url, req_method = opt_method options,
      req_headers =
        AList.update ''Authorization'' authorization
          (case opt_headers options of None \<Rightarrow> [] | Some h \<Rightarrow> h),
      req_body = opt_body options\<rparr>"

definition alert :: "string \<Rightarrow> page \<Rightarrow> page" where
  "alert text st = st\<lparr>alerts := alerts st @ [text]\<rparr>"

definition authenticatedFetch ::
  "string \<Rightarrow> fetch_options \<Rightarrow> page \<Rightarrow> (response, page) outcome" where
  "authenticatedFetch url options st =
     bind (lift (js_plus ''Bearer '' (accessToken st)) st) (\<lambda>authorization st.
     bind (fetch (authorized url options authorization) st) (\<lambda>response st.
       if status_code response = 401
       then
         bind (refreshAccessToken_html st) (\<lambda>refreshed st.
           if refreshed
           then
             bind (lift (js_plus ''Bearer '' (accessToken st)) st) (\<lambda>authorization st.
             fetch (authorized url options authorization) st)
           else
             Throws (Error ''Authentication required'')
               (logout_html (alert ''Session expired. Please log in again.'' st)))
       else Returns response st))"

section \<open>The expiry claim of a token, as the specification states it\<close>

text \<open>
  The specification derives the expiry from the \<^verbatim>\<open>exp\<close> claim of the unverified
  payload of the access token. The payload of a JWT is its second dot-separated segment,
  written in the URL-safe base64 alphabet (\<^verbatim>\<open>-\<close> and \<^verbatim>\<open>_\<close> in the places of
  \<^verbatim>\<open>+\<close> and \<^verbatim>\<open>/\<close>) without padding; this is what \<^verbatim>\<open>jwt.encode\<close> of the
  backend writes. \<open>spec_exp_claim\<close> follows these words, not \<open>getTokenExpiry\<close>: it
  reads the segment in the URL-safe alphabet and gives the \<^verbatim>\<open>exp\<close> member of the
  decoded JSON text.
\<close>

definition base64url_char :: "char \<Rightarrow> char" where
  "base64url_char c =
     (if c = CHR ''-'' then CHR ''+'' else if c = CHR ''_'' then CHR ''/'' else c)"

definition spec_exp_claim :: "string \<Rightarrow> js res" where
  "spec_exp_claim token =
     (case js_index (split_on CHR ''.'' token) 1 of
        Str segment \<Rightarrow>
          if CHR ''+'' \<in> set segment \<or> CHR ''/'' \<in> set segment
          then Throw InvalidCharacterError
          else rbind (rbind (atob (Str (map base64url_char segment))) JSON_parse)
                 (\<lambda>payload. get_prop payload ''exp'')
      | _ \<Rightarrow> Throw InvalidCharacterError)"

section \<open>Example runs\<close>

text \<open>
  Two access tokens whose second segments are the base64 of
  \<^verbatim>\<open>{"username":"alice","exp":1700000000}\<close> and of the same claims with
  \<^verbatim>\<open>exp\<close> 1700000900, the pair stored for the first, and a popup that has just
  been opened for the first time.
\<close>

definition alice_token :: string where
  "alice_token =
     ''eyJhbGciOiJIUzI1NiIsInR5cCI6IkpXVCJ9.eyJ1c2VybmFtZSI6ImFsaWNlIiwiZXhwIjoxNzAwMDAwMDAwfQ.c2ln''"

definition renewed_token :: string where
  "renewed_token =
     ''eyJhbGciOiJIUzI1NiIsInR5cCI6IkpXVCJ9.eyJ1c2VybmFtZSI6ImFsaWNlIiwiZXhwIjoxNzAwMDAwOTAwfQ.c2ln''"

text \<open>
  An access token as the backend issues it to the user \<^verbatim>\<open>abc?\<close>: the second segment
  is the URL-safe base64 of \<^verbatim>\<open>{"sub":"abc?","iat":1699999100,"exp":1700000000}\<close>,
  in which the question mark gives the character \<^verbatim>\<open>_\<close>.
\<close>

definition abc_token :: string where
  "abc_token =
     ''eyJhbGciOiJIUzI1NiIsInR5cCI6IkpXVCJ9.eyJzdWIiOiJhYmM_IiwiaWF0IjoxNjk5OTk5MTAwLCJleHAiOjE3MDAwMDAwMDB9.c2ln''"

definition alice_pair :: tokens where
  "alice_pair =
     \<lparr>access_token = Str alice_token, refresh_token = Str ''r1'',
      access_token_expiry = Num 1700000000000\<rparr>"

definition opened :: popup where
  "opened =
     \<lparr>network = [], trace = [], localStorage = [], storage = [], username_input = [],
      password_input = [], logout_hidden = True, status = None\<rparr>"

text \<open>A popup in which alice is signed in, before the network gives \<open>answers\<close>.\<close>

definition signed_in :: "response option list \<Rightarrow> popup" where
  "signed_in answers =
     opened\<lparr>network := answers, localStorage := [(''username'', ''alice'')],
            storage := [(''auth_tokens'', alice_pair)], logout_hidden := False\<rparr>"

text \<open>A popup with the two fields filled in, before the network gives \<open>answers\<close>.\<close>

definition filled_in :: "string \<Rightarrow> string \<Rightarrow> response option list \<Rightarrow> popup" where
  "filled_in username password answers =
     opened\<lparr>network := answers, username_input := username, password_input := password\<rparr>"

text \<open>A clock before the expiry of \<open>alice_pair\<close> and one after it; the storage can be read.\<close>

definition early :: env where
  "early = \<lparr>date_now = 1699999999000, runtime_lastError = None\<rparr>"

definition late :: env where
  "late = \<lparr>date_now = 1700000100000, runtime_lastError = None\<rparr>"

text \<open>Answers of the API, as the backend of the repository gives them.\<close>

definition protected_ok :: response where
  "protected_ok =
     Response 200 (Some (Obj [(''status'', Str ''ok''), (''message'', Str ''Hello, alice!'')]))"

definition tokens_ok :: "string \<Rightarrow> string \<Rightarrow> response" where
  "tokens_ok access refresh =
     Response 200
       (Some (Obj [(''status'', Str ''ok''), (''access_token'', Str access),
                   (''refresh_token'', Str refresh)]))"

definition refresh_denied :: response where
  "refresh_denied = Response 400 (Some (Obj [(''detail'', Str ''Invalid refresh token.'')]))"

definition invalid_credentials :: response where
  "invalid_credentials = Response 401 (Some (Obj [(''detail'', Str ''Invalid credentials.'')]))"

definition unauthorized :: response where
  "unauthorized = Response 401 (Some (Obj [(''detail'', Str ''Access token expired.'')]))"

text \<open>The page after \<^verbatim>\<open>loadTokens\<close> found nothing, before the network gives \<open>answers\<close>.\<close>

definition loaded :: "response option list \<Rightarrow> page" where
  "loaded answers =
     \<lparr>network = answers, trace = [], localStorage = [], accessToken = Str [],
      refreshToken = Str [], alerts = [], console = [], authSection_hidden = False,
      welcomeSection_hidden = True\<rparr>"

text \<open>The page with alice signed in, before the network gives \<open>answers\<close>.\<close>

definition welcomed :: "response option list \<Rightarrow> page" where
  "welcomed answers =
     \<lparr>network = answers, trace = [],
      localStorage =
        [(''accessToken'', alice_token), (''refreshToken'', ''r1''), (''username'', ''alice'')],
      accessToken = Str alice_token, refreshToken = Str ''r1'', alerts = [], console = [],
      authSection_hidden = True, welcomeSection_hidden = False\<rparr>"

definition get_data :: fetch_options where
  "get_data = \<lparr>opt_method = ''GET'', opt_headers = None, opt_body = None\<rparr>"

definition data_url :: string where
  "data_url = BASE_URL @ ''/protected-data''"

section \<open>Rules for the steps\<close>

lemma rbind_simps [simp]:
  "rbind (Ret x) f = f x"
  "rbind (Throw e) f = Throw e"
  "rbind Beyond f = Beyond"
  by (simp_all add: rbind_def)

lemma outcome_bind_simps [simp]:
  "bind (Returns x s) g = g x s"
  "bind (Throws e s) g = Throws e s"
  "bind Outside g = Outside"
  by (simp_all add: bind_def)

lemma lift_simps [simp]:
  "lift (Ret x) s = Returns x s"
  "lift (Throw e) s = Throws e s"
  "lift Beyond s = Outside"
  by (simp_all add: lift_def)

lemma try_catch_simps [simp]:
  "try_catch (Returns x s) h = Returns x s"
  "try_catch (Throws e s) h = h e s"
  "try_catch Outside h = Outside"
  by (simp_all add: try_catch_def)

lemma fetch_cases:
  "fetch req st = Throws NetworkError (sent req st) \<or>
   (\<exists>r. network st = Some r # tl (network st) \<and> fetch req st = Returns r (sent req st))"
  by (simp add: fetch_def split: list.splits option.splits)

lemma sent_browser [simp]:
  "trace (sent req st) = trace st @ [req]"
  "network (sent req st) = tl (network st)"
  "localStorage (sent req st) = localStorage st"
  by (simp_all add: sent_def)

lemma sent_popup [simp]:
  "storage (sent req st) = storage st"
  "status (sent req st) = status st"
  "logout_hidden (sent req st) = logout_hidden st"
  "username_input (sent req st) = username_input st"
  "password_input (sent req st) = password_input st"
  by (simp_all add: sent_def)

lemma sent_page [simp]:
  "accessToken (sent req st) = accessToken st"
  "refreshToken (sent req st) = refreshToken st"
  "alerts (sent req st) = alerts st"
  "console (sent req st) = console st"
  "authSection_hidden (sent req st) = authSection_hidden st"
  "welcomeSection_hidden (sent req st) = welcomeSection_hidden st"
  by (simp_all add: sent_def)

lemma setStatus_simps [simp]:
  "trace (setStatus m c st) = trace st"
  "network (setStatus m c st) = network st"
  "localStorage (setStatus m c st) = localStorage st"
  "storage (setStatus m c st) = storage st"
  "logout_hidden (setStatus m c st) = logout_hidden st"
  "status (setStatus m c st) = Some (m, if c = ''error'' then ''error'' else ''success'')"
  by (simp_all add: setStatus_def)

subsection \<open>\<^verbatim>\<open>ToString\<close> is within the model\<close>

lemma join_strings_modelled:
  "Beyond \<notin> set rs \<Longrightarrow> join_strings rs \<noteq> Beyond"
  by (induction rs rule: join_strings.induct) (auto simp add: rbind_def split: res.splits)

lemma to_string_modelled [simp]: "to_string v \<noteq> Beyond"
proof (induction v rule: to_string.induct)
  case (6 xs)
  have "Beyond \<notin> set (map (\<lambda>x. if x = Undefined \<or> x = Null then Ret [] else to_string x) xs)"
  proof
    assume "Beyond \<in> set (map (\<lambda>x. if x = Undefined \<or> x = Null then Ret [] else to_string x) xs)"
    then obtain x where "x \<in> set xs" "x \<noteq> Undefined" "x \<noteq> Null" "to_string x = Beyond"
      by (auto split: if_splits)
    with 6 show False by blast
  qed
  then show ?case by (simp add: join_strings_modelled)
qed simp_all

subsection \<open>The steps of the extension\<close>

lemma final_simps [simp]:
  "final (Returns x s) = Some s"
  "final (Throws e s) = Some s"
  "final Outside = None"
  by (simp_all add: final_def)

lemma getTokenExpiry_string: "getTokenExpiry a = Ret e \<Longrightarrow> \<exists>s. a = Str s"
  by (cases a) (simp_all add: getTokenExpiry_def js_split_def)

lemma storeTokens_cases:
  "getTokenExpiry a = Ret e \<Longrightarrow>
     storeTokens a r st =
       Returns ()
         (st\<lparr>storage :=
              AList.update ''auth_tokens''
                \<lparr>access_token = a, refresh_token = r, access_token_expiry = e\<rparr> (storage st)\<rparr>)"
  "getTokenExpiry a = Throw x \<Longrightarrow> storeTokens a r st = Throws x st"
  "getTokenExpiry a = Beyond \<Longrightarrow> storeTokens a r st = Outside"
  by (simp_all add: storeTokens_def)

lemma refreshAccessToken_cases:
  "refreshAccessToken rt st = Outside \<or>
   (\<exists>e. refreshAccessToken rt st = Throws e (sent (refresh_request rt) st)) \<or>
   (\<exists>resp result a r e.
      network st = Some resp # tl (network st) \<and> ok resp \<and> json_body resp = Some result \<and>
      get_prop result ''status'' = Ret (Str ''ok'') \<and>
      get_prop result ''access_token'' = Ret a \<and> get_prop result ''refresh_token'' = Ret r \<and>
      getTokenExpiry a = Ret e \<and>
      refreshAccessToken rt st =
        Returns (a, r)
          ((sent (refresh_request rt) st)
             \<lparr>storage :=
                AList.update ''auth_tokens''
                  \<lparr>access_token = a, refresh_token = r, access_token_expiry = e\<rparr>
                  (storage st)\<rparr>))"
proof -
  let ?req = "refresh_request rt"
  from fetch_cases [of ?req st] show ?thesis
  proof
    assume "fetch ?req st = Throws NetworkError (sent ?req st)"
    then show ?thesis by (simp add: refreshAccessToken_def)
  next
    assume "\<exists>r. network st = Some r # tl (network st) \<and> fetch ?req st = Returns r (sent ?req st)"
    then obtain resp where resp: "network st = Some resp # tl (network st)"
      "fetch ?req st = Returns resp (sent ?req st)" by blast
    show ?thesis
    proof (cases "json_body resp")
      case None
      with resp show ?thesis by (simp add: refreshAccessToken_def json_def)
    next
      case (Some result)
      show ?thesis
      proof (cases "ok_and_status_ok resp result")
        case (Ret success)
        show ?thesis
        proof (cases success)
          case True
          with Ret have ok: "ok resp" "get_prop result ''status'' = Ret (Str ''ok'')"
            by (auto simp add: ok_and_status_ok_def rbind_def split: if_splits res.splits)
          then obtain a r where ar: "get_prop result ''access_token'' = Ret a"
            "get_prop result ''refresh_token'' = Ret r"
            by (auto simp add: get_prop_def split: js.splits)
          show ?thesis
          proof (cases "getTokenExpiry a")
            case (Ret e)
            with resp Some ok ar \<open>ok_and_status_ok resp result = Ret success\<close> True
            have "refreshAccessToken rt st =
              Returns (a, r)
                ((sent (refresh_request rt) st)
                   \<lparr>storage :=
                      AList.update ''auth_tokens''
                        \<lparr>access_token = a, refresh_token = r, access_token_expiry = e\<rparr>
                        (storage st)\<rparr>)"
              by (simp add: refreshAccessToken_def json_def storeTokens_cases)
            with resp Some ok ar Ret show ?thesis by blast
          next
            case (Throw x)
            with resp Some ok ar \<open>ok_and_status_ok resp result = Ret success\<close> True
            show ?thesis
              by (simp add: refreshAccessToken_def json_def storeTokens_cases)
          next
            case Beyond
            with resp Some ok ar \<open>ok_and_status_ok resp result = Ret success\<close> True
            show ?thesis
              by (simp add: refreshAccessToken_def json_def storeTokens_cases)
          qed
        next
          case False
          with Ret resp Some show ?thesis
            by (cases "rbind (get_prop result ''message'') (js_plus ''Failed to refresh token: '')")
              (simp_all add: refreshAccessToken_def json_def)
        qed
      next
        case (Throw x)
        with resp Some show ?thesis by (simp add: refreshAccessToken_def json_def)
      next
        case Beyond
        with resp Some show ?thesis by (simp add: refreshAccessToken_def json_def)
      qed
    qed
  qed
qed

lemma accessProtected_token:
  assumes "getAccessToken env st = Returns tok st1" and "to_string tok = Ret s"
  shows "\<exists>m c. accessProtected env st =
           Returns () (setStatus m c (sent (protected_request (''Bearer '' @ s)) st1))"
proof -
  let ?req = "protected_request (''Bearer '' @ s)"
  from fetch_cases [of ?req st1] show ?thesis
  proof
    assume "fetch ?req st1 = Throws NetworkError (sent ?req st1)"
    with assms have "accessProtected env st =
        Returns () (setStatus (plus_error_message [] NetworkError) ''error'' (sent ?req st1))"
      by (simp add: accessProtected_def js_plus_def)
    then show ?thesis by blast
  next
    assume "\<exists>r. network st1 = Some r # tl (network st1) \<and> fetch ?req st1 = Returns r (sent ?req st1)"
    then obtain r where "fetch ?req st1 = Returns r (sent ?req st1)" by blast
    with assms show ?thesis
      by (auto simp add: accessProtected_def js_plus_def
          json_def ok_and_status_ok_def get_prop_def rbind_def textContent_def
          split: option.splits js.splits res.splits)
  qed
qed

lemma accessProtected_no_token:
  "getAccessToken env st = Throws e st1 \<Longrightarrow>
   accessProtected env st = Returns () (setStatus (plus_error_message [] e) ''error'' st1)"
  "getAccessToken env st = Outside \<Longrightarrow> accessProtected env st = Outside"
  by (simp_all add: accessProtected_def)

lemma fetch_answered:
  "network st = Some r # rs \<Longrightarrow> fetch req st = Returns r (sent req st)"
  by (simp add: fetch_def)

lemma refreshAccessToken_granted:
  assumes "network st = Some resp # rs" "ok resp" "json_body resp = Some result"
    and "get_prop result ''status'' = Ret (Str ''ok'')"
    and "get_prop result ''access_token'' = Ret a"
    and "get_prop result ''refresh_token'' = Ret r"
    and "getTokenExpiry a = Ret e"
  shows "refreshAccessToken rt st =
           Returns (a, r)
             ((sent (refresh_request rt) st)
                \<lparr>storage :=
                   AList.update ''auth_tokens''
                     \<lparr>access_token = a, refresh_token = r, access_token_expiry = e\<rparr>
                     (storage st)\<rparr>)"
  using assms
  by (simp add: refreshAccessToken_def fetch_answered json_def ok_and_status_ok_def
      storeTokens_cases)

lemma renewed_token_expiry: "getTokenExpiry (Str renewed_token) = Ret (Num 1700000900000)"
  by code_simp

lemma alice_token_expiry: "getTokenExpiry (Str alice_token) = Ret (Num 1700000000000)"
  by code_simp

lemma login_answered:
  assumes "trim (username_input st) \<noteq> []" and "password_input st \<noteq> []"
    and "network st = Some resp # rs" and "ok resp" and "json_body resp = Some result"
    and "get_prop result ''status'' = Ret (Str ''ok'')"
    and "get_prop result ''access_token'' = Ret a"
    and "get_prop result ''refresh_token'' = Ret r"
  shows "login st =
           try_catch
             (bind (storeTokens a r
                      (sent (authenticate_request (trim (username_input st)) (password_input st)) st))
                (\<lambda>_ st.
                   Returns ()
                     ((showLogoutButton
                         (setStatus (Text ''Authentication successful.'') ''success'' st))
                      \<lparr>password_input := []\<rparr>)))
             (\<lambda>error st.
                Returns ()
                  (setStatus (plus_error_message ''Authentication failed: '' error) ''error'' st))"
  using assms
  by (simp add: login_def Let_def fetch_answered json_def ok_and_status_ok_def)

lemma getTokenExpiry_decoded:
  "rbind (atob (js_index (split_on CHR ''.'' token) 1)) JSON_parse = Ret payload \<Longrightarrow>
   getTokenExpiry (Str token) = rbind (get_prop payload ''exp'') (\<lambda>e. js_times e 1000)"
  by (cases "atob (js_index (split_on CHR ''.'' token) 1)")
    (simp_all add: getTokenExpiry_def js_split_def)

lemma getTokenExpiry_undecoded:
  "rbind (atob (js_index (split_on CHR ''.'' token) 1)) JSON_parse = Throw x \<Longrightarrow>
   getTokenExpiry (Str token) = Throw x"
  by (cases "atob (js_index (split_on CHR ''.'' token) 1)")
    (simp_all add: getTokenExpiry_def js_split_def)

lemma alice_token_payload:
  "rbind (atob (js_index (split_on CHR ''.'' alice_token) 1)) JSON_parse =
     Ret (Obj [(''exp'', Number 1700000000), (''username'', Str ''alice'')])"
  by code_simp

lemma abc_expiry: "getTokenExpiry (Str ''abc'') = Throw InvalidCharacterError"
  by code_simp

lemma split_on_absent: "c \<notin> set s \<Longrightarrow> split_on c s = [s]"
  by (induction s) auto

lemma atob_undefined: "atob Undefined = Throw InvalidCharacterError"
  by code_simp

lemma getTokenExpiry_one_segment:
  "CHR ''.'' \<notin> set token \<Longrightarrow> getTokenExpiry (Str token) = Throw InvalidCharacterError"
  by (simp add: getTokenExpiry_def js_split_def split_on_absent js_index_def atob_undefined)

lemma getTokenExpiry_not_string:
  "(\<forall>s. a \<noteq> Str s) \<Longrightarrow> getTokenExpiry a = Throw TypeError"
  by (cases a) (simp_all add: getTokenExpiry_def js_split_def)

lemma storeTokens_returns_iff:
  "(\<exists>st'. storeTokens a r st = Returns () st') = (\<exists>e. getTokenExpiry a = Ret e)"
  by (cases "getTokenExpiry a") (simp_all add: storeTokens_cases)

lemma number_payload:
  "rbind (atob (js_index (split_on CHR ''.'' ''a.NQ=='') 1)) JSON_parse = Ret (Number 5)"
  by code_simp

lemma number_payload_expiry: "getTokenExpiry (Str ''a.NQ=='') = Ret NaN"
  by code_simp

lemma login_stores_decoded_expiry:
  assumes "trim (username_input st) \<noteq> []" and "password_input st \<noteq> []"
    and "network st = Some resp # rs" and "ok resp" and "json_body resp = Some result"
    and "get_prop result ''status'' = Ret (Str ''ok'')"
    and "get_prop result ''access_token'' = Ret (Str token)"
    and "get_prop result ''refresh_token'' = Ret refresh"
    and "rbind (atob (js_index (split_on CHR ''.'' token) 1)) JSON_parse = Ret payload"
    and "get_prop payload ''exp'' = Ret (Number n)"
    and "\<bar>sint n * 1000\<bar> \<le> max_safe"
  shows "\<exists>st'. login st = Returns () st' \<and>
           map_of (storage st') ''auth_tokens'' =
             Some \<lparr>access_token = Str token, refresh_token = refresh,
                   access_token_expiry = Num (sint n * 1000)\<rparr> \<and>
           status st' = Some (Text ''Authentication successful.'', ''success'')"
proof -
  from assms(9-11) have "getTokenExpiry (Str token) = Ret (Num (sint n * 1000))"
    by (simp add: getTokenExpiry_decoded js_times_def to_number_def)
  with login_answered [OF assms(1-8)] show ?thesis
    by (simp add: storeTokens_cases showLogoutButton_def setStatus_def update_conv')
qed

lemma abc_token_claim: "spec_exp_claim abc_token = Ret (Number 1700000000)"
  by code_simp

lemma abc_token_expiry: "getTokenExpiry (Str abc_token) = Throw InvalidCharacterError"
  by code_simp

lemma get_prop_modelled [simp]: "get_prop v k \<noteq> Beyond"
  by (simp add: get_prop_def split: js.splits)

lemma js_plus_modelled [simp]: "js_plus p v \<noteq> Beyond"
  by (cases "to_string v") (simp_all add: js_plus_def)

lemma prefixed_message_modelled [simp]: "rbind (get_prop v k) (js_plus p) \<noteq> Beyond"
  by (cases "get_prop v k") simp_all

lemma refreshAccessToken_failure:
  assumes "\<not> (\<exists>resp result. network st = Some resp # tl (network st) \<and> ok resp \<and>
                json_body resp = Some result \<and> get_prop result ''status'' = Ret (Str ''ok''))"
  shows "\<exists>x. refreshAccessToken rt st = Throws x (sent (refresh_request rt) st)"
proof -
  let ?req = "refresh_request rt"
  from fetch_cases [of ?req st] show ?thesis
  proof
    assume "fetch ?req st = Throws NetworkError (sent ?req st)"
    then show ?thesis by (simp add: refreshAccessToken_def)
  next
    assume "\<exists>r. network st = Some r # tl (network st) \<and> fetch ?req st = Returns r (sent ?req st)"
    then obtain resp where resp: "network st = Some resp # tl (network st)"
      "fetch ?req st = Returns resp (sent ?req st)" by blast
    show ?thesis
    proof (cases "json_body resp")
      case None
      with resp show ?thesis by (simp add: refreshAccessToken_def json_def)
    next
      case (Some result)
      have message: "\<exists>x. lift (rbind (get_prop result ''message'')
          (js_plus ''Failed to refresh token: '')) (sent ?req st) = Throws x (sent ?req st) \<or>
        (\<exists>text. lift (rbind (get_prop result ''message'')
          (js_plus ''Failed to refresh token: '')) (sent ?req st) = Returns text (sent ?req st))"
        using prefixed_message_modelled [of result "''message''" "''Failed to refresh token: ''"]
        by (cases "rbind (get_prop result ''message'') (js_plus ''Failed to refresh token: '')")
          simp_all
      show ?thesis
      proof (cases "ok_and_status_ok resp result")
        case (Ret success)
        with assms resp(1) Some have "\<not> success"
          by (auto simp add: ok_and_status_ok_def rbind_def split: if_splits res.splits)
        with Ret resp Some message show ?thesis
          by (auto simp add: refreshAccessToken_def json_def)
      next
        case (Throw x)
        with resp Some show ?thesis by (simp add: refreshAccessToken_def json_def)
      next
        case Beyond
        then show ?thesis
          by (simp add: ok_and_status_ok_def rbind_def split: if_splits res.splits)
      qed
    qed
  qed
qed

subsection \<open>The steps of the page\<close>

lemma storeTokens_html_cases:
  "to_string a = Ret sa \<Longrightarrow> to_string r = Ret sr \<Longrightarrow>
     storeTokens_html a r st =
       Returns ()
         (st\<lparr>accessToken := a, refreshToken := r,
             localStorage :=
               AList.update ''refreshToken'' sr
                 (AList.update ''accessToken'' sa (localStorage st))\<rparr>)"
  "to_string a = Throw x \<Longrightarrow>
     storeTokens_html a r st = Throws x (st\<lparr>accessToken := a, refreshToken := r\<rparr>)"
  "to_string a = Ret sa \<Longrightarrow> to_string r = Throw x \<Longrightarrow>
     storeTokens_html a r st =
       Throws x
         (st\<lparr>accessToken := a, refreshToken := r,
             localStorage := AList.update ''accessToken'' sa (localStorage st)\<rparr>)"
  by (simp_all add: storeTokens_html_def setItem_def)

lemma clearTokens_simps [simp]:
  "accessToken (clearTokens st) = Str []"
  "refreshToken (clearTokens st) = Str []"
  "localStorage (clearTokens st) =
     AList.delete ''refreshToken'' (AList.delete ''accessToken'' (localStorage st))"
  "trace (clearTokens st) = trace st"
  "network (clearTokens st) = network st"
  "alerts (clearTokens st) = alerts st"
  "console (clearTokens st) = console st"
  "authSection_hidden (clearTokens st) = authSection_hidden st"
  "welcomeSection_hidden (clearTokens st) = welcomeSection_hidden st"
  by (simp_all add: clearTokens_def)

lemma logout_html_simps [simp]:
  "accessToken (logout_html st) = Str []"
  "refreshToken (logout_html st) = Str []"
  "localStorage (logout_html st) =
     AList.delete ''username''
       (AList.delete ''refreshToken'' (AList.delete ''accessToken'' (localStorage st)))"
  "trace (logout_html st) = trace st"
  "network (logout_html st) = network st"
  "alerts (logout_html st) = alerts st"
  "authSection_hidden (logout_html st) = False"
  "welcomeSection_hidden (logout_html st) = True"
  by (simp_all add: logout_html_def showSection_auth_def hideSection_welcome_def)

lemma alert_simps [simp]:
  "accessToken (alert text st) = accessToken st"
  "refreshToken (alert text st) = refreshToken st"
  "localStorage (alert text st) = localStorage st"
  "trace (alert text st) = trace st"
  "network (alert text st) = network st"
  "alerts (alert text st) = alerts st @ [text]"
  by (simp_all add: alert_def)

text \<open>What a refresh of the page ends in: the cleared state, or the new tokens.\<close>

lemma refreshAccessToken_html_cases:
  assumes "\<not> falsy (refreshToken st)"
  shows
    "(\<exists>st1. refreshAccessToken_html st = Returns False st1 \<and>
        accessToken st1 = Str [] \<and> refreshToken st1 = Str [] \<and>
        localStorage st1 =
          AList.delete ''refreshToken'' (AList.delete ''accessToken'' (localStorage st)) \<and>
        trace st1 = trace st @ [refresh_request_html (refreshToken st)] \<and>
        network st1 = tl (network st) \<and> alerts st1 = alerts st \<and>
        authSection_hidden st1 = authSection_hidden st \<and>
        welcomeSection_hidden st1 = welcomeSection_hidden st) \<or>
     (\<exists>resp data a r sa sr.
        network st = Some resp # tl (network st) \<and> ok resp \<and> json_body resp = Some data \<and>
        get_prop data ''access_token'' = Ret a \<and> get_prop data ''refresh_token'' = Ret r \<and>
        to_string a = Ret sa \<and> to_string r = Ret sr \<and>
        refreshAccessToken_html st =
          Returns True
            ((sent (refresh_request_html (refreshToken st)) st)
               \<lparr>accessToken := a, refreshToken := r,
                localStorage :=
                  AList.update ''refreshToken'' sr
                    (AList.update ''accessToken'' sa (localStorage st))\<rparr>))"
proof -
  let ?req = "refresh_request_html (refreshToken st)"
  from fetch_cases [of ?req st] show ?thesis
  proof
    assume "fetch ?req st = Throws NetworkError (sent ?req st)"
    with assms show ?thesis by (simp add: refreshAccessToken_html_def)
  next
    assume "\<exists>r. network st = Some r # tl (network st) \<and> fetch ?req st = Returns r (sent ?req st)"
    then obtain resp where resp: "network st = Some resp # tl (network st)"
      "fetch ?req st = Returns resp (sent ?req st)" by blast
    show ?thesis
    proof (cases "ok resp")
      case False
      with assms resp show ?thesis by (simp add: refreshAccessToken_html_def)
    next
      case True
      show ?thesis
      proof (cases "json_body resp")
        case None
        with assms resp True show ?thesis by (simp add: refreshAccessToken_html_def json_def)
      next
        case (Some data)
        show ?thesis
        proof (cases "get_prop data ''access_token''")
          case (Ret a)
          then obtain r where r: "get_prop data ''refresh_token'' = Ret r"
            by (auto simp add: get_prop_def split: js.splits)
          show ?thesis
          proof (cases "to_string a")
            case a: (Ret sa)
            show ?thesis
            proof (cases "to_string r")
              case (Ret sr)
              with assms resp True Some \<open>get_prop data ''access_token'' = Ret a\<close> r a
              have "refreshAccessToken_html st =
                  Returns True
                    ((sent ?req st)
                       \<lparr>accessToken := a, refreshToken := r,
                        localStorage :=
                          AList.update ''refreshToken'' sr
                            (AList.update ''accessToken'' sa (localStorage st))\<rparr>)"
                by (simp add: refreshAccessToken_html_def json_def storeTokens_html_cases)
              with resp True Some \<open>get_prop data ''access_token'' = Ret a\<close> r a Ret
              show ?thesis by blast
            next
              case (Throw x)
              with assms resp True Some \<open>get_prop data ''access_token'' = Ret a\<close> r a
              show ?thesis
                by (simp add: refreshAccessToken_html_def json_def storeTokens_html_cases
                    delete_update_same)
            next
              case Beyond
              then show ?thesis by simp
            qed
          next
            case (Throw x)
            with assms resp True Some \<open>get_prop data ''access_token'' = Ret a\<close> r
            show ?thesis
              by (simp add: refreshAccessToken_html_def json_def storeTokens_html_cases)
          next
            case Beyond
            then show ?thesis by simp
          qed
        next
          case (Throw x)
          with assms resp True Some show ?thesis
            by (simp add: refreshAccessToken_html_def json_def)
        next
          case Beyond
          then show ?thesis by (simp add: get_prop_def split: js.splits)
        qed
      qed
    qed
  qed
qed

lemma logged_out_logout_html [simp]: "logged_out (logout_html st)"
  by (simp add: logged_out_def delete_conv')

lemma authenticatedFetch_rejected:
  assumes "to_string (accessToken st) = Ret s"
    and "\<not> (\<exists>resp. network st = Some resp # tl (network st))"
  shows "authenticatedFetch url options st =
           Throws NetworkError (sent (authorized url options (''Bearer '' @ s)) st)"
  using assms fetch_cases [of "authorized url options (''Bearer '' @ s)" st]
  by (auto simp add: authenticatedFetch_def js_plus_def)

lemma authenticatedFetch_passed:
  assumes "to_string (accessToken st) = Ret s"
    and "network st = Some resp # tl (network st)" and "status_code resp \<noteq> 401"
  shows "authenticatedFetch url options st =
           Returns resp (sent (authorized url options (''Bearer '' @ s)) st)"
  using assms
  by (simp add: authenticatedFetch_def js_plus_def fetch_answered [where rs = "tl (network st)"])

lemma authenticatedFetch_unauthorized:
  assumes "to_string (accessToken st) = Ret s"
    and "network st = Some resp # tl (network st)" and "status_code resp = 401"
  shows "authenticatedFetch url options st =
           bind (refreshAccessToken_html (sent (authorized url options (''Bearer '' @ s)) st))
             (\<lambda>refreshed st.
                if refreshed
                then bind (lift (js_plus ''Bearer '' (accessToken st)) st) (\<lambda>authorization st.
                       fetch (authorized url options authorization) st)
                else Throws (Error ''Authentication required'')
                       (logout_html (alert ''Session expired. Please log in again.'' st)))"
  using assms
  by (simp add: authenticatedFetch_def js_plus_def fetch_answered [where rs = "tl (network st)"])

lemma authenticatedFetch_no_refresh_token:
  assumes "to_string (accessToken st) = Ret s"
    and "network st = Some resp # tl (network st)" and "status_code resp = 401"
    and "falsy (refreshToken st)"
  shows "\<exists>st'. authenticatedFetch url options st = Throws (Error ''Authentication required'') st' \<and>
           trace st' = trace st @ [authorized url options (''Bearer '' @ s)] \<and>
           alerts st' = alerts st @ [''Session expired. Please log in again.''] \<and>
           logged_out st'"
  using authenticatedFetch_unauthorized [OF assms(1-3)] assms(4)
  by (simp add: refreshAccessToken_html_def)

lemma fetch_final: "final (fetch req st) = Some (sent req st)"
  using fetch_cases [of req st] by auto

lemma refreshAccessToken_html_granted:
  assumes "\<not> falsy (refreshToken st)" and "network st = Some resp # rs" and "ok resp"
    and "json_body resp = Some data"
    and "get_prop data ''access_token'' = Ret a" and "get_prop data ''refresh_token'' = Ret r"
    and "to_string a = Ret sa" and "to_string r = Ret sr"
  shows "refreshAccessToken_html st =
           Returns True
             ((sent (refresh_request_html (refreshToken st)) st)
                \<lparr>accessToken := a, refreshToken := r,
                 localStorage :=
                   AList.update ''refreshToken'' sr
                     (AList.update ''accessToken'' sa (localStorage st))\<rparr>)"
  using assms
  by (simp add: refreshAccessToken_html_def fetch_answered json_def storeTokens_html_cases)

lemma refreshAccessToken_html_not_granted:
  assumes "\<not> falsy (refreshToken st)"
    and "\<not> (\<exists>resp data a r sa sr.
              network st = Some resp # tl (network st) \<and> ok resp \<and> json_body resp = Some data \<and>
              get_prop data ''access_token'' = Ret a \<and> get_prop data ''refresh_token'' = Ret r \<and>
              to_string a = Ret sa \<and> to_string r = Ret sr)"
  shows "\<exists>st1. refreshAccessToken_html st = Returns False st1 \<and>
           trace st1 = trace st @ [refresh_request_html (refreshToken st)] \<and>
           alerts st1 = alerts st"
  using refreshAccessToken_html_cases [OF assms(1)] assms(2) by blast

lemma refreshAccessToken_html_returns: "\<exists>b st1. refreshAccessToken_html st = Returns b st1"
proof (cases "falsy (refreshToken st)")
  case True
  then have "refreshAccessToken_html st = Returns False st"
    by (simp add: refreshAccessToken_html_def)
  then show ?thesis by blast
next
  case False
  from refreshAccessToken_html_cases [OF this] show ?thesis by blast
qed

lemma refreshAccessToken_html_true:
  assumes "refreshAccessToken_html st = Returns True st1"
  shows "\<exists>s. to_string (accessToken st1) = Ret s"
proof (cases "falsy (refreshToken st)")
  case True
  with assms show ?thesis by (simp add: refreshAccessToken_html_def)
next
  case False
  from refreshAccessToken_html_cases [OF this] assms show ?thesis by auto
qed

lemma authenticatedFetch_refreshed:
  assumes "to_string (accessToken st) = Ret s"
    and "network st = Some resp # tl (network st)" and "status_code resp = 401"
    and "refreshAccessToken_html (sent (authorized url options (''Bearer '' @ s)) st) =
           Returns True st2"
  shows "\<exists>s2. to_string (accessToken st2) = Ret s2 \<and>
           authenticatedFetch url options st =
             fetch (authorized url options (''Bearer '' @ s2)) st2"
proof -
  from refreshAccessToken_html_true [OF assms(4)]
  obtain s2 where s2: "to_string (accessToken st2) = Ret s2" ..
  with authenticatedFetch_unauthorized [OF assms(1-3), of url options] assms(4)
  have "authenticatedFetch url options st =
      fetch (authorized url options (''Bearer '' @ s2)) st2"
    by (simp add: js_plus_def)
  with s2 show ?thesis by blast
qed

lemma authenticatedFetch_not_refreshed:
  assumes "to_string (accessToken st) = Ret s"
    and "network st = Some resp # tl (network st)" and "status_code resp = 401"
    and "refreshAccessToken_html (sent (authorized url options (''Bearer '' @ s)) st) =
           Returns False st2"
  shows "authenticatedFetch url options st =
           Throws (Error ''Authentication required'')
             (logout_html (alert ''Session expired. Please log in again.'' st2))"
  using authenticatedFetch_unauthorized [OF assms(1-3), of url options] assms(4) by simp

lemma authenticatedFetch_refresh_granted:
  assumes "to_string (accessToken st) = Ret s"
    and "network st = Some resp # Some resp2 # rs" and "status_code resp = 401"
    and "\<not> falsy (refreshToken st)" and "ok resp2" and "json_body resp2 = Some data"
    and "get_prop data ''access_token'' = Ret a" and "get_prop data ''refresh_token'' = Ret r"
    and "to_string a = Ret sa" and "to_string r = Ret sr"
  shows "authenticatedFetch url options st =
           fetch (authorized url options (''Bearer '' @ sa))
             ((sent (refresh_request_html (refreshToken st))
                 (sent (authorized url options (''Bearer '' @ s)) st))
                \<lparr>accessToken := a, refreshToken := r,
                 localStorage :=
                   AList.update ''refreshToken'' sr
                     (AList.update ''accessToken'' sa (localStorage st))\<rparr>)"
proof -
  let ?st1 = "sent (authorized url options (''Bearer '' @ s)) st"
  from assms(2) have first: "network st = Some resp # tl (network st)" by simp
  from assms(2,4) have "\<not> falsy (refreshToken ?st1)" "network ?st1 = Some resp2 # rs"
    by simp_all
  from refreshAccessToken_html_granted [OF this assms(5-10)]
  have "refreshAccessToken_html ?st1 =
      Returns True
        ((sent (refresh_request_html (refreshToken st)) ?st1)
           \<lparr>accessToken := a, refreshToken := r,
            localStorage :=
              AList.update ''refreshToken'' sr
                (AList.update ''accessToken'' sa (localStorage st))\<rparr>)"
    by simp
  with authenticatedFetch_unauthorized [OF assms(1) first assms(3), of url options] assms(9)
  show ?thesis by (simp add: js_plus_def)
qed

lemma authenticatedFetch_refresh_failed:
  assumes "to_string (accessToken st) = Ret s"
    and "network st = Some resp # tl (network st)" and "status_code resp = 401"
    and "\<not> falsy (refreshToken st)"
    and "\<not> (\<exists>resp2 data a r sa sr.
              tl (network st) = Some resp2 # tl (tl (network st)) \<and> ok resp2 \<and>
              json_body resp2 = Some data \<and>
              get_prop data ''access_token'' = Ret a \<and> get_prop data ''refresh_token'' = Ret r \<and>
              to_string a = Ret sa \<and> to_string r = Ret sr)"
  shows "\<exists>st'. authenticatedFetch url options st = Throws (Error ''Authentication required'') st' \<and>
           trace st' =
             trace st @
               [authorized url options (''Bearer '' @ s), refresh_request_html (refreshToken st)] \<and>
           alerts st' = alerts st @ [''Session expired. Please log in again.''] \<and>
           logged_out st'"
proof -
  let ?st1 = "sent (authorized url options (''Bearer '' @ s)) st"
  from assms(4) have token: "\<not> falsy (refreshToken ?st1)" by simp
  from assms(5) have "\<not> (\<exists>resp data a r sa sr.
      network ?st1 = Some resp # tl (network ?st1) \<and> ok resp \<and> json_body resp = Some data \<and>
      get_prop data ''access_token'' = Ret a \<and> get_prop data ''refresh_token'' = Ret r \<and>
      to_string a = Ret sa \<and> to_string r = Ret sr)"
    by simp
  from refreshAccessToken_html_not_granted [OF token this]
  obtain st2 where st2: "refreshAccessToken_html ?st1 = Returns False st2"
    "trace st2 = trace ?st1 @ [refresh_request_html (refreshToken ?st1)]"
    "alerts st2 = alerts ?st1" by blast
  from authenticatedFetch_not_refreshed [OF assms(1-3) st2(1)] st2(2,3)
  show ?thesis by simp
qed

lemma refresh_and_retry_run:
  "authenticatedFetch data_url get_data
     (welcomed [Some unauthorized, Some (tokens_ok renewed_token ''r2''), Some protected_ok]) =
   Returns protected_ok
     ((welcomed [])
        \<lparr>trace :=
           [authorized data_url get_data (''Bearer '' @ alice_token),
            refresh_request_html (Str ''r1''),
            authorized data_url get_data (''Bearer '' @ renewed_token)],
         localStorage :=
           [(''accessToken'', renewed_token), (''refreshToken'', ''r2''), (''username'', ''alice'')],
         accessToken := Str renewed_token, refreshToken := Str ''r2''\<rparr>)"
  by (simp add: authenticatedFetch_def welcomed_def js_plus_def fetch_def sent_def
      unauthorized_def refreshAccessToken_html_def falsy_def tokens_ok_def ok_def json_def
      get_prop_def storeTokens_html_def setItem_def)

lemma refreshAccessToken_html_failure:
  assumes "\<not> falsy (refreshToken st)"
    and "\<And>resp. network st = Some resp # tl (network st) \<Longrightarrow> \<not> ok resp \<or> json_body resp = None"
  shows "\<exists>st1. refreshAccessToken_html st = Returns False st1"
  using refreshAccessToken_html_cases [OF assms(1)] assms(2) by fastforce

lemma loadTokens_simps:
  "accessToken (loadTokens st) =
     (case map_of (localStorage st) ''accessToken'' of None \<Rightarrow> Str [] | Some s \<Rightarrow> Str s)"
  "refreshToken (loadTokens st) =
     (case map_of (localStorage st) ''refreshToken'' of None \<Rightarrow> Str [] | Some s \<Rightarrow> Str s)"
  by (simp_all add: loadTokens_def getItem_or_empty_def)






section \<open>The extension's protected request\<close>

text \<open>
  C6. A protected-resource request made when a token pair is cached and its stored
  expiry is not in the past sends exactly one HTTP call: the request to
  \<^verbatim>\<open>/protected\<close> with the cached access token as bearer. There is no refresh call
  and no retry, whatever the answer to the call is.
\<close>

theorem unexpired_token_sends_one_call:
  assumes "runtime_lastError env = None"
    and "map_of (storage st) ''auth_tokens'' = Some t"
    and "\<not> js_gt (date_now env) (access_token_expiry t)"
    and "to_string (access_token t) = Ret a"
  shows "\<exists>st'. accessProtected env st = Returns () st' \<and>
           trace st' = trace st @ [protected_request (''Bearer '' @ a)]"
proof -
  let ?req = "protected_request (''Bearer '' @ a)"
  from fetch_cases [of ?req st] show ?thesis
  proof
    assume "fetch ?req st = Throws NetworkError (sent ?req st)"
    with assms show ?thesis
      by (simp add: accessProtected_def getAccessToken_def getStoredTokens_def js_plus_def)
  next
    assume "\<exists>r. network st = Some r # tl (network st) \<and> fetch ?req st = Returns r (sent ?req st)"
    then obtain r where "fetch ?req st = Returns r (sent ?req st)" by blast
    with assms show ?thesis
      by (auto simp add: accessProtected_def getAccessToken_def getStoredTokens_def js_plus_def
          json_def ok_and_status_ok_def get_prop_def rbind_def textContent_def
          split: option.splits js.splits res.splits)
  qed
qed

theorem unexpired_token_sends_one_call_witness:
  "\<exists>st'. accessProtected early (signed_in [Some protected_ok]) = Returns () st' \<and>
     trace st' = [protected_request (''Bearer '' @ alice_token)]"
proof -
  have "runtime_lastError early = None"
    by (simp add: early_def)
  moreover have "map_of (storage (signed_in [Some protected_ok])) ''auth_tokens'' = Some alice_pair"
    by (simp add: signed_in_def opened_def)
  moreover have "\<not> js_gt (date_now early) (access_token_expiry alice_pair)"
    by (simp add: early_def alice_pair_def js_gt_def)
  moreover have "to_string (access_token alice_pair) = Ret alice_token"
    by (simp add: alice_pair_def)
  ultimately have
    "\<exists>st'. accessProtected early (signed_in [Some protected_ok]) = Returns () st' \<and>
       trace st' = trace (signed_in [Some protected_ok]) @
         [protected_request (''Bearer '' @ alice_token)]"
    by (rule unexpired_token_sends_one_call)
  then show ?thesis
    by (simp add: signed_in_def opened_def)
qed

text \<open>
  C1, as amended. A protected-resource request made when the stored expiry of the cached
  pair is in the past first issues exactly one call to \<^verbatim>\<open>/refresh\<close> with the cached
  refresh token. When that call is answered by an OK response of status \<^verbatim>\<open>ok\<close>
  whose access token has an expiry that \<open>getTokenExpiry\<close> decodes, exactly one call to
  \<^verbatim>\<open>/protected\<close> follows, carrying the new access token, and no other call is
  made. When the refresh throws (a rejected call, a body that is not JSON, a response
  that is not OK or whose status is not \<^verbatim>\<open>ok\<close>, an access token without a decodable
  expiry), the refresh call is the only call and the status line shows an error. The
  third part says that a refresh within the model is one of the two.
\<close>

theorem expired_token_refresh_then_protected:
  assumes "runtime_lastError env = None"
    and "map_of (storage st) ''auth_tokens'' = Some t"
    and "js_gt (date_now env) (access_token_expiry t)"
  shows
    "(\<forall>resp result a r e.
        network st = Some resp # tl (network st) \<and> ok resp \<and> json_body resp = Some result \<and>
        get_prop result ''status'' = Ret (Str ''ok'') \<and>
        get_prop result ''access_token'' = Ret (Str a) \<and>
        get_prop result ''refresh_token'' = Ret r \<and> getTokenExpiry (Str a) = Ret e \<longrightarrow>
        (\<exists>st'. accessProtected env st = Returns () st' \<and>
               trace st' =
                 trace st @
                   [refresh_request (refresh_token t), protected_request (''Bearer '' @ a)])) \<and>
     (\<forall>x st1. refreshAccessToken (refresh_token t) st = Throws x st1 \<longrightarrow>
        (\<exists>st'. accessProtected env st = Returns () st' \<and>
               trace st' = trace st @ [refresh_request (refresh_token t)] \<and>
               (\<exists>m. status st' = Some (m, ''error'')))) \<and>
     (refreshAccessToken (refresh_token t) st = Outside \<or>
      (\<exists>x st1. refreshAccessToken (refresh_token t) st = Throws x st1) \<or>
      (\<exists>resp result a r e.
         network st = Some resp # tl (network st) \<and> ok resp \<and> json_body resp = Some result \<and>
         get_prop result ''status'' = Ret (Str ''ok'') \<and>
         get_prop result ''access_token'' = Ret (Str a) \<and>
         get_prop result ''refresh_token'' = Ret r \<and> getTokenExpiry (Str a) = Ret e))"
proof -
  let ?rt = "refresh_token t"
  from assms have get: "getAccessToken env st =
      bind (refreshAccessToken ?rt st) (\<lambda>newTokens st. Returns (fst newTokens) st)"
    by (simp add: getAccessToken_def getStoredTokens_def)
  have granted: "\<exists>st'. accessProtected env st = Returns () st' \<and>
      trace st' = trace st @ [refresh_request ?rt, protected_request (''Bearer '' @ a)]"
    if "network st = Some resp # tl (network st)" "ok resp" "json_body resp = Some result"
      "get_prop result ''status'' = Ret (Str ''ok'')"
      "get_prop result ''access_token'' = Ret (Str a)"
      "get_prop result ''refresh_token'' = Ret r" "getTokenExpiry (Str a) = Ret e"
    for resp result a r e
  proof -
    from that have "\<exists>st1. refreshAccessToken ?rt st = Returns (Str a, r) st1 \<and>
        trace st1 = trace st @ [refresh_request ?rt]"
      by (simp add: refreshAccessToken_granted [where rs = "tl (network st)"])
    then obtain st1 where st1: "refreshAccessToken ?rt st = Returns (Str a, r) st1"
      "trace st1 = trace st @ [refresh_request ?rt]" by blast
    with get have "getAccessToken env st = Returns (Str a) st1" by simp
    from accessProtected_token [OF this, of a] st1 show ?thesis by auto
  qed
  have denied: "\<exists>st'. accessProtected env st = Returns () st' \<and>
      trace st' = trace st @ [refresh_request ?rt] \<and> (\<exists>m. status st' = Some (m, ''error''))"
    if "refreshAccessToken ?rt st = Throws x st1" for x st1
  proof -
    from refreshAccessToken_cases [of ?rt st] that
    have st1: "st1 = sent (refresh_request ?rt) st" by auto
    from get that have "getAccessToken env st = Throws x st1" by simp
    then have "accessProtected env st =
        Returns () (setStatus (plus_error_message [] x) ''error'' st1)"
      by (rule accessProtected_no_token)
    with st1 show ?thesis by simp
  qed
  from refreshAccessToken_cases [of ?rt st]
  have "refreshAccessToken ?rt st = Outside \<or>
      (\<exists>x st1. refreshAccessToken ?rt st = Throws x st1) \<or>
      (\<exists>resp result a r e.
         network st = Some resp # tl (network st) \<and> ok resp \<and> json_body resp = Some result \<and>
         get_prop result ''status'' = Ret (Str ''ok'') \<and>
         get_prop result ''access_token'' = Ret (Str a) \<and>
         get_prop result ''refresh_token'' = Ret r \<and> getTokenExpiry (Str a) = Ret e)"
    using getTokenExpiry_string by blast
  with granted denied show ?thesis by blast
qed

theorem expired_token_refresh_then_protected_witness:
  "\<exists>st'. accessProtected late
            (signed_in [Some (tokens_ok renewed_token ''r2''), Some protected_ok]) =
          Returns () st' \<and>
     trace st' =
       [refresh_request (Str ''r1''), protected_request (''Bearer '' @ renewed_token)]"
proof -
  let ?st = "signed_in [Some (tokens_ok renewed_token ''r2''), Some protected_ok]"
  let ?result = "Obj [(''status'', Str ''ok''), (''access_token'', Str renewed_token),
                      (''refresh_token'', Str ''r2'')]"
  have cached: "runtime_lastError late = None" "map_of (storage ?st) ''auth_tokens'' = Some alice_pair"
    "js_gt (date_now late) (access_token_expiry alice_pair)"
    by (simp_all add: late_def signed_in_def opened_def alice_pair_def js_gt_def)
  have answer: "network ?st = Some (tokens_ok renewed_token ''r2'') # tl (network ?st)"
    "ok (tokens_ok renewed_token ''r2'')" "json_body (tokens_ok renewed_token ''r2'') = Some ?result"
    "get_prop ?result ''status'' = Ret (Str ''ok'')"
    "get_prop ?result ''access_token'' = Ret (Str renewed_token)"
    "get_prop ?result ''refresh_token'' = Ret (Str ''r2'')"
    by (simp_all add: signed_in_def opened_def tokens_ok_def ok_def get_prop_def)
  from expired_token_refresh_then_protected [OF cached] answer renewed_token_expiry
  have "\<exists>st'. accessProtected late ?st = Returns () st' \<and>
      trace st' = trace ?st @
        [refresh_request (refresh_token alice_pair), protected_request (''Bearer '' @ renewed_token)]"
    by blast
  then show ?thesis
    by (simp add: signed_in_def opened_def alice_pair_def)
qed

text \<open>
  C1 as stated fails when the refresh is denied: the cached pair is expired, the API
  answers the refresh call with status 400, and the only call made is the refresh call.
\<close>

theorem expired_token_refresh_denied_counterexample:
  "map_option trace (final (accessProtected late (signed_in [Some refresh_denied]))) =
     Some [refresh_request (Str ''r1'')]"
  by (simp add: accessProtected_def getAccessToken_def getStoredTokens_def late_def signed_in_def
      opened_def alice_pair_def js_gt_def refreshAccessToken_def fetch_def sent_def
      refresh_denied_def json_def ok_and_status_ok_def ok_def get_prop_def js_plus_def
      plus_error_message_def setStatus_def)

section \<open>Logout\<close>

text \<open>
  C4. After \<open>logout\<close> the token pair is gone from \<^verbatim>\<open>chrome.storage.local\<close> and the
  username from \<^verbatim>\<open>localStorage\<close>, and every protected-resource attempt made while
  the storage is in that cleared state ends with an error in the status line, without a
  call to the network, and leaves the storage cleared. The error is
  \<^verbatim>\<open>No tokens found. Please login.\<close> whenever the read of the storage reports no
  \<^verbatim>\<open>lastError\<close>, and the message of that \<^verbatim>\<open>lastError\<close> otherwise.
\<close>

theorem logout_then_no_tokens:
  assumes "logout st = Returns () st1"
  shows "map_of (storage st1) ''auth_tokens'' = None \<and>
         map_of (localStorage st1) ''username'' = None \<and>
         (\<forall>s env. storage s = storage st1 \<longrightarrow>
            (\<exists>s'. accessProtected env s = Returns () s' \<and>
                  trace s' = trace s \<and> storage s' = storage s \<and>
                  (\<exists>m. status s' = Some (Text m, ''error'')) \<and>
                  (runtime_lastError env = None \<longrightarrow>
                     status s' = Some (Text ''No tokens found. Please login.'', ''error''))))"
proof -
  from assms have st1: "storage st1 = AList.delete ''auth_tokens'' (storage st)"
    "localStorage st1 = AList.delete ''username'' (localStorage st)"
    by (auto simp add: logout_def hideLogoutButton_def setStatus_def)
  have none: "map_of (storage st1) ''auth_tokens'' = None"
    by (simp add: st1 delete_conv')
  have "\<exists>s'. accessProtected env s = Returns () s' \<and>
          trace s' = trace s \<and> storage s' = storage s \<and>
          (\<exists>m. status s' = Some (Text m, ''error'')) \<and>
          (runtime_lastError env = None \<longrightarrow>
             status s' = Some (Text ''No tokens found. Please login.'', ''error''))"
    if s: "storage s = storage st1" for s env
  proof (cases "runtime_lastError env")
    case None
    with s none have "getAccessToken env s = Throws (Error ''No tokens found. Please login.'') s"
      by (simp add: getAccessToken_def getStoredTokens_def)
    then have "accessProtected env s =
        Returns () (setStatus (Text ''No tokens found. Please login.'') ''error'' s)"
      by (simp add: accessProtected_no_token plus_error_message_def)
    then show ?thesis by simp
  next
    case (Some m)
    then have "getAccessToken env s = Throws (LastError m) s"
      by (simp add: getAccessToken_def getStoredTokens_def)
    then have "accessProtected env s = Returns () (setStatus (Text m) ''error'' s)"
      by (simp add: accessProtected_no_token plus_error_message_def)
    with Some show ?thesis by simp
  qed
  with none show ?thesis
    by (simp add: st1 delete_conv')
qed

theorem logout_then_no_tokens_witness:
  "\<exists>s'. accessProtected early (the (final (logout (signed_in [Some protected_ok])))) = Returns () s' \<and>
     status s' = Some (Text ''No tokens found. Please login.'', ''error'') \<and> trace s' = []"
proof -
  let ?st1 = "the (final (logout (signed_in [Some protected_ok])))"
  have l: "logout (signed_in [Some protected_ok]) = Returns () ?st1"
    by (simp add: logout_def)
  have "trace ?st1 = []"
    by (simp add: logout_def hideLogoutButton_def setStatus_def signed_in_def opened_def)
  moreover have "runtime_lastError early = None"
    by (simp add: early_def)
  ultimately show ?thesis
    using logout_then_no_tokens [OF l] by fastforce
qed

section \<open>Validation of the credentials\<close>

text \<open>
  C5, as amended. \<open>register\<close> rejects a submission whose trimmed username is empty,
  whose password is empty or whose password is shorter than 8 characters; \<open>login\<close>
  rejects a submission whose trimmed username is empty or whose password is empty, and
  has no check of the length. A rejection sets an error status and sends nothing to
  the network.
\<close>

theorem validation_rejects_without_network:
  "(trim (username_input st) = [] \<or> password_input st = [] \<or> length (password_input st) < 8 \<longrightarrow>
      (\<exists>st'. register st = Returns () st' \<and> trace st' = trace st \<and>
             (\<exists>m. status st' = Some (Text m, ''error'')))) \<and>
   (trim (username_input st) = [] \<or> password_input st = [] \<longrightarrow>
      (\<exists>st'. login st = Returns () st' \<and> trace st' = trace st \<and>
             (\<exists>m. status st' = Some (Text m, ''error''))))"
  by (auto simp add: register_def login_def Let_def)

theorem validation_rejects_without_network_witness:
  "\<exists>st'. register (filled_in ''alice'' ''short'' [Some invalid_credentials]) = Returns () st' \<and>
     trace st' = [] \<and> (\<exists>m. status st' = Some (Text m, ''error''))"
proof -
  have "length (password_input (filled_in ''alice'' ''short'' [Some invalid_credentials])) < 8"
    "trace (filled_in ''alice'' ''short'' [Some invalid_credentials]) = []"
    by (simp_all add: filled_in_def opened_def)
  with validation_rejects_without_network [of "filled_in ''alice'' ''short'' [Some invalid_credentials]"]
  show ?thesis by auto
qed

text \<open>
  C5 as stated fails for \<open>login\<close>: a password of five characters is sent to
  \<^verbatim>\<open>/authenticate\<close>.
\<close>

theorem login_short_password_counterexample:
  "map_option trace (final (login (filled_in ''alice'' ''short'' [Some invalid_credentials]))) =
     Some [authenticate_request ''alice'' ''short'']"
  by (simp add: login_def filled_in_def opened_def trim_def is_js_ws_def fetch_def sent_def
      invalid_credentials_def json_def ok_and_status_ok_def ok_def get_prop_def js_plus_def
      setStatus_def Let_def)

section \<open>Storing the tokens\<close>

text \<open>
  C3. The claim fails on a token of the backend: for the user \<^verbatim>\<open>abc?\<close> the
  payload segment of the access token contains \<^verbatim>\<open>_\<close>, which \<^verbatim>\<open>atob\<close> does not
  accept. The \<^verbatim>\<open>exp\<close> claim of the unverified payload is 1700000000, so the claim
  asks for a stored pair with the expiry 1700000000000; but \<open>getTokenExpiry\<close> throws,
  and the login that was answered OK with status \<^verbatim>\<open>ok\<close> ends with an empty
  storage and the status line of a failed authentication.
\<close>

theorem authenticate_base64url_token_not_stored:
  "spec_exp_claim abc_token = Ret (Number 1700000000) \<and>
   getTokenExpiry (Str abc_token) = Throw InvalidCharacterError \<and>
   login (filled_in ''abc?'' ''password1'' [Some (tokens_ok abc_token ''r1'')]) =
     Returns ()
       ((filled_in ''abc?'' ''password1'' [])
          \<lparr>trace := [authenticate_request ''abc?'' ''password1''],
           status :=
             Some (Platform_message ''Authentication failed: '' InvalidCharacterError, ''error'')\<rparr>) \<and>
   map_option storage
     (final (login (filled_in ''abc?'' ''password1'' [Some (tokens_ok abc_token ''r1'')]))) =
     Some []"
proof -
  let ?st = "filled_in ''abc?'' ''password1'' [Some (tokens_ok abc_token ''r1'')]"
  let ?result = "Obj [(''status'', Str ''ok''), (''access_token'', Str abc_token),
                      (''refresh_token'', Str ''r1'')]"
  have "trim (username_input ?st) \<noteq> []" "password_input ?st \<noteq> []"
    "network ?st = Some (tokens_ok abc_token ''r1'') # []"
    "ok (tokens_ok abc_token ''r1'')"
    "json_body (tokens_ok abc_token ''r1'') = Some ?result"
    "get_prop ?result ''status'' = Ret (Str ''ok'')"
    "get_prop ?result ''access_token'' = Ret (Str abc_token)"
    "get_prop ?result ''refresh_token'' = Ret (Str ''r1'')"
    by (simp_all add: filled_in_def opened_def trim_def is_js_ws_def tokens_ok_def ok_def
        get_prop_def)
  from login_answered [OF this]
  have run: "login ?st =
      Returns ()
        ((filled_in ''abc?'' ''password1'' [])
           \<lparr>trace := [authenticate_request ''abc?'' ''password1''],
            status :=
              Some (Platform_message ''Authentication failed: '' InvalidCharacterError,
                    ''error'')\<rparr>)"
    by (simp add: storeTokens_cases abc_token_expiry plus_error_message_def setStatus_def
        filled_in_def opened_def sent_def trim_def is_js_ws_def)
  have "map_option storage (final (login ?st)) = Some []"
    unfolding run by (simp add: filled_in_def opened_def)
  with abc_token_claim abc_token_expiry run show ?thesis
    by (intro conjI)
qed

text \<open>
  C10, as amended. \<open>storeTokens\<close> completes exactly when \<open>getTokenExpiry\<close> returns.
  \<open>getTokenExpiry\<close> throws for an access token that is not a string, for a string
  without a second dot-separated segment, for a second segment that is not base64 or
  whose decoded text is not JSON, and for a decoded payload that is \<^verbatim>\<open>null\<close>.
  Whenever it throws, \<open>storeTokens\<close> throws before anything is written: the state is
  the one before the call, so no partial pair is persisted, and \<open>login\<close> reports the
  exception as a failed authentication, with the storage unchanged.
\<close>

theorem storeTokens_atomic_on_throw:
  "(getTokenExpiry a = Throw x \<longrightarrow> storeTokens a r st = Throws x st) \<and>
   ((\<exists>st'. storeTokens a r st = Returns () st') = (\<exists>e. getTokenExpiry a = Ret e)) \<and>
   ((\<forall>s. a \<noteq> Str s) \<longrightarrow> getTokenExpiry a = Throw TypeError) \<and>
   (CHR ''.'' \<notin> set token \<longrightarrow> getTokenExpiry (Str token) = Throw InvalidCharacterError) \<and>
   (rbind (atob (js_index (split_on CHR ''.'' token) 1)) JSON_parse = Throw x \<longrightarrow>
      getTokenExpiry (Str token) = Throw x) \<and>
   (rbind (atob (js_index (split_on CHR ''.'' token) 1)) JSON_parse = Ret Null \<longrightarrow>
      getTokenExpiry (Str token) = Throw TypeError) \<and>
   (trim (username_input st) \<noteq> [] \<and> password_input st \<noteq> [] \<and>
    network st = Some resp # rs \<and> ok resp \<and> json_body resp = Some result \<and>
    get_prop result ''status'' = Ret (Str ''ok'') \<and>
    get_prop result ''access_token'' = Ret a \<and> get_prop result ''refresh_token'' = Ret r \<and>
    getTokenExpiry a = Throw x \<longrightarrow>
      (\<exists>st'. login st = Returns () st' \<and> storage st' = storage st \<and>
             status st' = Some (plus_error_message ''Authentication failed: '' x, ''error'')))"
proof -
  have "\<exists>st'. login st = Returns () st' \<and> storage st' = storage st \<and>
      status st' = Some (plus_error_message ''Authentication failed: '' x, ''error'')"
    if "trim (username_input st) \<noteq> []" "password_input st \<noteq> []"
      "network st = Some resp # rs" "ok resp" "json_body resp = Some result"
      "get_prop result ''status'' = Ret (Str ''ok'')"
      "get_prop result ''access_token'' = Ret a" "get_prop result ''refresh_token'' = Ret r"
      "getTokenExpiry a = Throw x"
    using login_answered [OF that(1-8)] that(9)
    by (simp add: storeTokens_cases)
  then show ?thesis
    by (simp add: storeTokens_cases storeTokens_returns_iff getTokenExpiry_not_string
        getTokenExpiry_one_segment getTokenExpiry_undecoded getTokenExpiry_decoded get_prop_def)
qed

theorem storeTokens_atomic_on_throw_witness:
  "storeTokens (Str ''abc'') (Str ''r1'') (signed_in []) = Throws InvalidCharacterError (signed_in [])"
proof -
  have "CHR ''.'' \<notin> set ''abc''" by simp
  with storeTokens_atomic_on_throw [of "Str ''abc''" InvalidCharacterError "Str ''r1''" "signed_in []" "''abc''"]
  show ?thesis by blast
qed

text \<open>
  C10 as stated fails for an access token whose second segment decodes to JSON that is
  not an object: the segment \<^verbatim>\<open>NQ==\<close> is the number 5, whose \<^verbatim>\<open>exp\<close> is
  \<^verbatim>\<open>undefined\<close>; nothing throws, and the pair is stored with the expiry
  \<^verbatim>\<open>NaN\<close>.
\<close>

theorem storeTokens_number_payload_counterexample:
  "rbind (atob (js_index (split_on CHR ''.'' ''a.NQ=='') 1)) JSON_parse = Ret (Number 5) \<and>
   storeTokens (Str ''a.NQ=='') (Str ''r1'') opened =
     Returns ()
       (opened\<lparr>storage :=
          [(''auth_tokens'',
            \<lparr>access_token = Str ''a.NQ=='', refresh_token = Str ''r1'',
             access_token_expiry = NaN\<rparr>)]\<rparr>)"
proof (rule conjI)
  show "rbind (atob (js_index (split_on CHR ''.'' ''a.NQ=='') 1)) JSON_parse = Ret (Number 5)"
    by (rule number_payload)
  show "storeTokens (Str ''a.NQ=='') (Str ''r1'') opened =
     Returns ()
       (opened\<lparr>storage :=
          [(''auth_tokens'',
            \<lparr>access_token = Str ''a.NQ=='', refresh_token = Str ''r1'',
             access_token_expiry = NaN\<rparr>)]\<rparr>)"
    by (simp add: storeTokens_cases number_payload_expiry opened_def)
qed

section \<open>The authenticated request of the page\<close>

text \<open>
  C2, as amended. Every request sent through \<open>authenticatedFetch\<close> carries the header
  \<^verbatim>\<open>Authorization: Bearer\<close> with the access token of the page, and the request is
  the first call. A rejected call and a response whose status is not 401 end the
  wrapper after that one call. On a 401 response the wrapper calls
  \<open>refreshAccessToken_html\<close> once, and that call always returns. When the page holds
  no refresh token, it sends nothing: there is no refresh request, an error is thrown
  and the page is logged out. When the page holds one, exactly one request goes to the
  refresh endpoint. If the answer to it is OK with a JSON body whose
  \<^verbatim>\<open>access_token\<close> and \<^verbatim>\<open>refresh_token\<close> can be stored, the original request
  is sent exactly once more, with the \<^verbatim>\<open>access_token\<close> of that answer as bearer,
  and the outcome of this retry is the outcome of the wrapper, whatever it is. With any
  other answer to the refresh request, an error is thrown and the page is logged out,
  with no further request. The last three parts say the same of the result of
  \<open>refreshAccessToken_html\<close>: after \<^verbatim>\<open>true\<close> the retry is sent with the access
  token the refresh left, after \<^verbatim>\<open>false\<close> the page is alerted and logged out and
  the error thrown, and there is no third result.
\<close>

theorem authenticatedFetch_refreshes_once:
  assumes "to_string (accessToken st) = Ret s"
  shows
    "(\<exists>st'. final (authenticatedFetch url options st) = Some st' \<and>
        (\<exists>rest. trace st' = trace st @ authorized url options (''Bearer '' @ s) # rest)) \<and>
     (\<not> (\<exists>resp. network st = Some resp # tl (network st)) \<longrightarrow>
        authenticatedFetch url options st =
          Throws NetworkError (sent (authorized url options (''Bearer '' @ s)) st)) \<and>
     (\<forall>resp. network st = Some resp # tl (network st) \<and> status_code resp \<noteq> 401 \<longrightarrow>
        authenticatedFetch url options st =
          Returns resp (sent (authorized url options (''Bearer '' @ s)) st)) \<and>
     (\<forall>resp. network st = Some resp # tl (network st) \<and> status_code resp = 401 \<and>
        falsy (refreshToken st) \<longrightarrow>
        (\<exists>st'. authenticatedFetch url options st = Throws (Error ''Authentication required'') st' \<and>
               trace st' = trace st @ [authorized url options (''Bearer '' @ s)] \<and>
               alerts st' = alerts st @ [''Session expired. Please log in again.''] \<and>
               logged_out st')) \<and>
     (\<forall>resp resp2 rs data a r sa sr.
        network st = Some resp # Some resp2 # rs \<and> status_code resp = 401 \<and>
        \<not> falsy (refreshToken st) \<and> ok resp2 \<and> json_body resp2 = Some data \<and>
        get_prop data ''access_token'' = Ret a \<and> get_prop data ''refresh_token'' = Ret r \<and>
        to_string a = Ret sa \<and> to_string r = Ret sr \<longrightarrow>
        authenticatedFetch url options st =
          fetch (authorized url options (''Bearer '' @ sa))
            ((sent (refresh_request_html (refreshToken st))
                (sent (authorized url options (''Bearer '' @ s)) st))
               \<lparr>accessToken := a, refreshToken := r,
                localStorage :=
                  AList.update ''refreshToken'' sr
                    (AList.update ''accessToken'' sa (localStorage st))\<rparr>) \<and>
        (\<exists>st'. final (authenticatedFetch url options st) = Some st' \<and>
               trace st' =
                 trace st @
                   [authorized url options (''Bearer '' @ s),
                    refresh_request_html (refreshToken st),
                    authorized url options (''Bearer '' @ sa)])) \<and>
     (\<forall>resp. network st = Some resp # tl (network st) \<and> status_code resp = 401 \<and>
        \<not> falsy (refreshToken st) \<and>
        \<not> (\<exists>resp2 data a r sa sr.
              tl (network st) = Some resp2 # tl (tl (network st)) \<and> ok resp2 \<and>
              json_body resp2 = Some data \<and>
              get_prop data ''access_token'' = Ret a \<and> get_prop data ''refresh_token'' = Ret r \<and>
              to_string a = Ret sa \<and> to_string r = Ret sr) \<longrightarrow>
        (\<exists>st'. authenticatedFetch url options st = Throws (Error ''Authentication required'') st' \<and>
               trace st' =
                 trace st @
                   [authorized url options (''Bearer '' @ s),
                    refresh_request_html (refreshToken st)] \<and>
               alerts st' = alerts st @ [''Session expired. Please log in again.''] \<and>
               logged_out st')) \<and>
     (\<forall>resp st2. network st = Some resp # tl (network st) \<and> status_code resp = 401 \<and>
        refreshAccessToken_html (sent (authorized url options (''Bearer '' @ s)) st) =
          Returns True st2 \<longrightarrow>
        (\<exists>s2. to_string (accessToken st2) = Ret s2 \<and>
              authenticatedFetch url options st =
                fetch (authorized url options (''Bearer '' @ s2)) st2)) \<and>
     (\<forall>resp st2. network st = Some resp # tl (network st) \<and> status_code resp = 401 \<and>
        refreshAccessToken_html (sent (authorized url options (''Bearer '' @ s)) st) =
          Returns False st2 \<longrightarrow>
        authenticatedFetch url options st =
          Throws (Error ''Authentication required'')
            (logout_html (alert ''Session expired. Please log in again.'' st2))) \<and>
     (\<exists>b st2. refreshAccessToken_html (sent (authorized url options (''Bearer '' @ s)) st) =
        Returns b st2)"
proof -
  let ?req = "authorized url options (''Bearer '' @ s)"
  let ?out = "authenticatedFetch url options st"
  note rejected = authenticatedFetch_rejected [OF assms, of url options]
  note passed = authenticatedFetch_passed [OF assms, of _ url options]
  note no_token = authenticatedFetch_no_refresh_token [OF assms, of _ url options]
  note failed = authenticatedFetch_refresh_failed [OF assms, of _ url options]
  note refreshed = authenticatedFetch_refreshed [OF assms, of _ url options]
  note not_refreshed = authenticatedFetch_not_refreshed [OF assms, of _ url options]
  have granted: "?out =
        fetch (authorized url options (''Bearer '' @ sa))
          ((sent (refresh_request_html (refreshToken st)) (sent ?req st))
             \<lparr>accessToken := a, refreshToken := r,
              localStorage :=
                AList.update ''refreshToken'' sr
                  (AList.update ''accessToken'' sa (localStorage st))\<rparr>) \<and>
      (\<exists>st'. final ?out = Some st' \<and>
         trace st' =
           trace st @
             [?req, refresh_request_html (refreshToken st),
              authorized url options (''Bearer '' @ sa)])"
    if "network st = Some resp # Some resp2 # rs" "status_code resp = 401"
      "\<not> falsy (refreshToken st)" "ok resp2" "json_body resp2 = Some data"
      "get_prop data ''access_token'' = Ret a" "get_prop data ''refresh_token'' = Ret r"
      "to_string a = Ret sa" "to_string r = Ret sr" for resp resp2 rs data a r sa sr
  proof -
    note run = authenticatedFetch_refresh_granted [OF assms that, of url options]
    then have "final ?out =
        Some (sent (authorized url options (''Bearer '' @ sa))
          ((sent (refresh_request_html (refreshToken st)) (sent ?req st))
             \<lparr>accessToken := a, refreshToken := r,
              localStorage :=
                AList.update ''refreshToken'' sr
                  (AList.update ''accessToken'' sa (localStorage st))\<rparr>))"
      by (simp add: fetch_final)
    with run show ?thesis by simp
  qed
  have first: "\<exists>st'. final ?out = Some st' \<and> (\<exists>rest. trace st' = trace st @ ?req # rest)"
  proof (cases "\<exists>resp. network st = Some resp # tl (network st)")
    case False
    with rejected show ?thesis by simp
  next
    case True
    then obtain resp where resp: "network st = Some resp # tl (network st)" ..
    show ?thesis
    proof (cases "status_code resp = 401")
      case False
      with passed [OF resp] show ?thesis by simp
    next
      case True
      from refreshAccessToken_html_returns [of "sent ?req st"]
      obtain b st2 where st2: "refreshAccessToken_html (sent ?req st) = Returns b st2" by blast
      show ?thesis
      proof (cases "falsy (refreshToken st)")
        case True
        with no_token [OF resp \<open>status_code resp = 401\<close>] show ?thesis by auto
      next
        case False
        show ?thesis
        proof (cases "\<exists>resp2 data a r sa sr.
            tl (network st) = Some resp2 # tl (tl (network st)) \<and> ok resp2 \<and>
            json_body resp2 = Some data \<and>
            get_prop data ''access_token'' = Ret a \<and> get_prop data ''refresh_token'' = Ret r \<and>
            to_string a = Ret sa \<and> to_string r = Ret sr")
          case True
          then obtain resp2 data a r sa sr where answer:
            "tl (network st) = Some resp2 # tl (tl (network st))" "ok resp2"
            "json_body resp2 = Some data" "get_prop data ''access_token'' = Ret a"
            "get_prop data ''refresh_token'' = Ret r" "to_string a = Ret sa" "to_string r = Ret sr"
            by blast
          from resp answer(1) have "network st = Some resp # Some resp2 # tl (tl (network st))"
            by simp
          from granted [OF this \<open>status_code resp = 401\<close> False answer(2-7)]
          show ?thesis by auto
        next
          case no_answer: False
          from failed [OF resp \<open>status_code resp = 401\<close> False no_answer]
          show ?thesis by auto
        qed
      qed
    qed
  qed
  show ?thesis
  proof (intro conjI allI impI)
    show "\<exists>st'. final ?out = Some st' \<and> (\<exists>rest. trace st' = trace st @ ?req # rest)"
      by (rule first)
  next
    assume "\<not> (\<exists>resp. network st = Some resp # tl (network st))"
    then show "?out = Throws NetworkError (sent ?req st)" by (rule rejected)
  next
    fix resp
    assume "network st = Some resp # tl (network st) \<and> status_code resp \<noteq> 401"
    then show "?out = Returns resp (sent ?req st)" using passed by blast
  next
    fix resp
    assume "network st = Some resp # tl (network st) \<and> status_code resp = 401 \<and>
      falsy (refreshToken st)"
    then show "\<exists>st'. ?out = Throws (Error ''Authentication required'') st' \<and>
        trace st' = trace st @ [?req] \<and>
        alerts st' = alerts st @ [''Session expired. Please log in again.''] \<and> logged_out st'"
      using no_token by blast
  next
    fix resp resp2 rs data a r sa sr
    assume answer: "network st = Some resp # Some resp2 # rs \<and> status_code resp = 401 \<and>
      \<not> falsy (refreshToken st) \<and> ok resp2 \<and> json_body resp2 = Some data \<and>
      get_prop data ''access_token'' = Ret a \<and> get_prop data ''refresh_token'' = Ret r \<and>
      to_string a = Ret sa \<and> to_string r = Ret sr"
    from granted [of resp resp2 rs data a r sa sr] answer
    show "?out =
        fetch (authorized url options (''Bearer '' @ sa))
          ((sent (refresh_request_html (refreshToken st)) (sent ?req st))
             \<lparr>accessToken := a, refreshToken := r,
              localStorage :=
                AList.update ''refreshToken'' sr
                  (AList.update ''accessToken'' sa (localStorage st))\<rparr>)"
      by blast
    from granted [of resp resp2 rs data a r sa sr] answer
    show "\<exists>st'. final ?out = Some st' \<and>
        trace st' =
          trace st @
            [?req, refresh_request_html (refreshToken st),
             authorized url options (''Bearer '' @ sa)]"
      by blast
  next
    fix resp
    assume "network st = Some resp # tl (network st) \<and> status_code resp = 401 \<and>
      \<not> falsy (refreshToken st) \<and>
      \<not> (\<exists>resp2 data a r sa sr.
            tl (network st) = Some resp2 # tl (tl (network st)) \<and> ok resp2 \<and>
            json_body resp2 = Some data \<and>
            get_prop data ''access_token'' = Ret a \<and> get_prop data ''refresh_token'' = Ret r \<and>
            to_string a = Ret sa \<and> to_string r = Ret sr)"
    then show "\<exists>st'. ?out = Throws (Error ''Authentication required'') st' \<and>
        trace st' = trace st @ [?req, refresh_request_html (refreshToken st)] \<and>
        alerts st' = alerts st @ [''Session expired. Please log in again.''] \<and> logged_out st'"
      using failed by blast
  next
    fix resp st2
    assume "network st = Some resp # tl (network st) \<and> status_code resp = 401 \<and>
      refreshAccessToken_html (sent ?req st) = Returns True st2"
    then show "\<exists>s2. to_string (accessToken st2) = Ret s2 \<and>
        ?out = fetch (authorized url options (''Bearer '' @ s2)) st2"
      using refreshed by blast
  next
    fix resp st2
    assume "network st = Some resp # tl (network st) \<and> status_code resp = 401 \<and>
      refreshAccessToken_html (sent ?req st) = Returns False st2"
    then show "?out =
        Throws (Error ''Authentication required'')
          (logout_html (alert ''Session expired. Please log in again.'' st2))"
      using not_refreshed by blast
  next
    show "\<exists>b st2. refreshAccessToken_html (sent ?req st) = Returns b st2"
      by (rule refreshAccessToken_html_returns)
  qed
qed

theorem authenticatedFetch_refreshes_once_witness:
  "\<exists>st'. final (authenticatedFetch data_url get_data
              (welcomed [Some unauthorized, Some (tokens_ok renewed_token ''r2''),
                         Some protected_ok])) = Some st' \<and>
     trace st' =
       [authorized data_url get_data (''Bearer '' @ alice_token),
        refresh_request_html (Str ''r1''),
        authorized data_url get_data (''Bearer '' @ renewed_token)]"
proof -
  let ?st = "welcomed [Some unauthorized, Some (tokens_ok renewed_token ''r2''), Some protected_ok]"
  let ?data = "Obj [(''status'', Str ''ok''), (''access_token'', Str renewed_token),
                    (''refresh_token'', Str ''r2'')]"
  have token: "to_string (accessToken ?st) = Ret alice_token"
    by (simp add: welcomed_def)
  have answer:
    "network ?st = Some unauthorized # Some (tokens_ok renewed_token ''r2'') # [Some protected_ok] \<and>
     status_code unauthorized = 401 \<and> \<not> falsy (refreshToken ?st) \<and>
     ok (tokens_ok renewed_token ''r2'') \<and>
     json_body (tokens_ok renewed_token ''r2'') = Some ?data \<and>
     get_prop ?data ''access_token'' = Ret (Str renewed_token) \<and>
     get_prop ?data ''refresh_token'' = Ret (Str ''r2'') \<and>
     to_string (Str renewed_token) = Ret renewed_token \<and> to_string (Str ''r2'') = Ret ''r2''"
    by (simp add: welcomed_def unauthorized_def falsy_def tokens_ok_def ok_def get_prop_def)
  have start: "trace ?st = []" "refreshToken ?st = Str ''r1''"
    by (simp_all add: welcomed_def)
  from authenticatedFetch_refreshes_once [OF token, of data_url get_data] answer
  have "\<exists>st'. final (authenticatedFetch data_url get_data ?st) = Some st' \<and>
      trace st' =
        trace ?st @
          [authorized data_url get_data (''Bearer '' @ alice_token),
           refresh_request_html (refreshToken ?st),
           authorized data_url get_data (''Bearer '' @ renewed_token)]"
    by blast
  with start show ?thesis by simp
qed

text \<open>
  C2 as stated fails on a 401 response when the page holds no refresh token: the
  wrapper makes no call to the refresh endpoint; it alerts, logs out and throws after
  the one request.
\<close>

theorem authenticatedFetch_no_refresh_token_counterexample:
  "status_code unauthorized = 401 \<and>
   authenticatedFetch data_url get_data (loaded [Some unauthorized]) =
     Throws (Error ''Authentication required'')
       ((loaded [])
          \<lparr>trace := [authorized data_url get_data ''Bearer ''],
           alerts := [''Session expired. Please log in again.'']\<rparr>)"
  by (simp add: authenticatedFetch_def loaded_def js_plus_def fetch_def sent_def
      unauthorized_def refreshAccessToken_html_def falsy_def logout_html_def alert_def
      clearTokens_def showSection_auth_def hideSection_welcome_def AList.delete_eq)

section \<open>A refresh that fails\<close>

text \<open>
  C7, as amended. In the page, a refresh call that fails (a rejected call, a response
  that is not OK, a body that cannot be read or stored) ends with the token pair
  cleared from the variables and from \<^verbatim>\<open>localStorage\<close>, after exactly one request to
  the refresh endpoint; a rejected call, a response that is not OK and a body that is
  not JSON are such failures; and \<open>authenticatedFetch\<close> then logs the page out and
  throws, with no further request. In the extension, a refresh whose call is rejected or
  whose answer is not an OK response with a JSON body of status \<^verbatim>\<open>ok\<close> throws,
  after exactly that one request and with nothing else changed; the refresh is not
  retried, and \<open>accessProtected\<close> shows the error; but the stored token pair and the
  logout button are left as they were. The same holds of every refresh that throws,
  whatever made it throw.
\<close>

theorem failed_refresh_outcomes:
  "(\<forall>st1. \<not> falsy (refreshToken pg) \<and> refreshAccessToken_html pg = Returns False st1 \<longrightarrow>
      accessToken st1 = Str [] \<and> refreshToken st1 = Str [] \<and>
      map_of (localStorage st1) ''accessToken'' = None \<and>
      map_of (localStorage st1) ''refreshToken'' = None \<and>
      trace st1 = trace pg @ [refresh_request_html (refreshToken pg)]) \<and>
   (\<not> falsy (refreshToken pg) \<and>
    (\<forall>resp. network pg = Some resp # tl (network pg) \<longrightarrow> \<not> ok resp \<or> json_body resp = None) \<longrightarrow>
      (\<exists>st1. refreshAccessToken_html pg = Returns False st1)) \<and>
   (\<forall>resp st2. to_string (accessToken pg) = Ret s \<and> network pg = Some resp # tl (network pg) \<and>
      status_code resp = 401 \<and>
      refreshAccessToken_html (sent (authorized url options (''Bearer '' @ s)) pg) =
        Returns False st2 \<longrightarrow>
      (\<exists>st'. authenticatedFetch url options pg = Throws (Error ''Authentication required'') st' \<and>
             logged_out st' \<and> trace st' = trace st2)) \<and>
   (\<forall>x st1. refreshAccessToken rt st = Throws x st1 \<longrightarrow>
      trace st1 = trace st @ [refresh_request rt] \<and> storage st1 = storage st \<and>
      logout_hidden st1 = logout_hidden st) \<and>
   (\<forall>x st1 t. runtime_lastError env = None \<and> map_of (storage st) ''auth_tokens'' = Some t \<and>
      js_gt (date_now env) (access_token_expiry t) \<and>
      refreshAccessToken (refresh_token t) st = Throws x st1 \<longrightarrow>
      (\<exists>st'. accessProtected env st = Returns () st' \<and> storage st' = storage st \<and>
             logout_hidden st' = logout_hidden st \<and>
             trace st' = trace st @ [refresh_request (refresh_token t)] \<and>
             status st' = Some (plus_error_message [] x, ''error''))) \<and>
   (\<not> (\<exists>resp result. network st = Some resp # tl (network st) \<and> ok resp \<and>
          json_body resp = Some result \<and> get_prop result ''status'' = Ret (Str ''ok'')) \<longrightarrow>
      (\<exists>x. refreshAccessToken rt st = Throws x (sent (refresh_request rt) st))) \<and>
   (\<forall>t. runtime_lastError env = None \<and> map_of (storage st) ''auth_tokens'' = Some t \<and>
      js_gt (date_now env) (access_token_expiry t) \<and>
      \<not> (\<exists>resp result. network st = Some resp # tl (network st) \<and> ok resp \<and>
            json_body resp = Some result \<and> get_prop result ''status'' = Ret (Str ''ok'')) \<longrightarrow>
      (\<exists>x st'. accessProtected env st = Returns () st' \<and> storage st' = storage st \<and>
             logout_hidden st' = logout_hidden st \<and>
             trace st' = trace st @ [refresh_request (refresh_token t)] \<and>
             status st' = Some (plus_error_message [] x, ''error'')))"
proof -
  have cleared: "accessToken st1 = Str [] \<and> refreshToken st1 = Str [] \<and>
      map_of (localStorage st1) ''accessToken'' = None \<and>
      map_of (localStorage st1) ''refreshToken'' = None \<and>
      trace st1 = trace pg @ [refresh_request_html (refreshToken pg)]"
    if "\<not> falsy (refreshToken pg)" "refreshAccessToken_html pg = Returns False st1" for st1
    using refreshAccessToken_html_cases [OF that(1)] that(2)
    by (auto simp add: delete_conv')
  have fails: "\<exists>st1. refreshAccessToken_html pg = Returns False st1"
    if "\<not> falsy (refreshToken pg)"
      "\<forall>resp. network pg = Some resp # tl (network pg) \<longrightarrow> \<not> ok resp \<or> json_body resp = None"
    using that by (intro refreshAccessToken_html_failure) auto
  have forced: "\<exists>st'. authenticatedFetch url options pg =
        Throws (Error ''Authentication required'') st' \<and> logged_out st' \<and> trace st' = trace st2"
    if "to_string (accessToken pg) = Ret s" "network pg = Some resp # tl (network pg)"
      "status_code resp = 401"
      "refreshAccessToken_html (sent (authorized url options (''Bearer '' @ s)) pg) =
        Returns False st2" for resp st2
    using authenticatedFetch_unauthorized [OF that(1-3), of url options] that(4) by simp
  have thrown: "trace st1 = trace st @ [refresh_request rt] \<and> storage st1 = storage st \<and>
      logout_hidden st1 = logout_hidden st"
    if "refreshAccessToken rt st = Throws x st1" for x st1 rt
    using refreshAccessToken_cases [of rt st] that by auto
  have surfaced: "\<exists>st'. accessProtected env st = Returns () st' \<and> storage st' = storage st \<and>
      logout_hidden st' = logout_hidden st \<and>
      trace st' = trace st @ [refresh_request (refresh_token t)] \<and>
      status st' = Some (plus_error_message [] x, ''error'')"
    if "runtime_lastError env = None" "map_of (storage st) ''auth_tokens'' = Some t"
      "js_gt (date_now env) (access_token_expiry t)"
      "refreshAccessToken (refresh_token t) st = Throws x st1" for x st1 t
  proof -
    from that have "getAccessToken env st = Throws x st1"
      by (simp add: getAccessToken_def getStoredTokens_def)
    then have "accessProtected env st =
        Returns () (setStatus (plus_error_message [] x) ''error'' st1)"
      by (rule accessProtected_no_token)
    with thrown [OF that(4)] show ?thesis by simp
  qed
  have throws: "\<exists>x. refreshAccessToken rt st = Throws x (sent (refresh_request rt) st)"
    if "\<not> (\<exists>resp result. network st = Some resp # tl (network st) \<and> ok resp \<and>
          json_body resp = Some result \<and> get_prop result ''status'' = Ret (Str ''ok''))" for rt
    using that by (rule refreshAccessToken_failure)
  have shown: "\<exists>x st'. accessProtected env st = Returns () st' \<and> storage st' = storage st \<and>
      logout_hidden st' = logout_hidden st \<and>
      trace st' = trace st @ [refresh_request (refresh_token t)] \<and>
      status st' = Some (plus_error_message [] x, ''error'')"
    if "runtime_lastError env = None" "map_of (storage st) ''auth_tokens'' = Some t"
      "js_gt (date_now env) (access_token_expiry t)"
      "\<not> (\<exists>resp result. network st = Some resp # tl (network st) \<and> ok resp \<and>
          json_body resp = Some result \<and> get_prop result ''status'' = Ret (Str ''ok''))" for t
  proof -
    from throws [OF that(4), of "refresh_token t"]
    obtain x where "refreshAccessToken (refresh_token t) st =
        Throws x (sent (refresh_request (refresh_token t)) st)" ..
    from surfaced [OF that(1-3) this] show ?thesis by blast
  qed
  show ?thesis
  proof (intro conjI)
    show "\<forall>st1. \<not> falsy (refreshToken pg) \<and> refreshAccessToken_html pg = Returns False st1 \<longrightarrow>
      accessToken st1 = Str [] \<and> refreshToken st1 = Str [] \<and>
      map_of (localStorage st1) ''accessToken'' = None \<and>
      map_of (localStorage st1) ''refreshToken'' = None \<and>
      trace st1 = trace pg @ [refresh_request_html (refreshToken pg)]"
      using cleared by blast
    show "\<not> falsy (refreshToken pg) \<and>
      (\<forall>resp. network pg = Some resp # tl (network pg) \<longrightarrow> \<not> ok resp \<or> json_body resp = None) \<longrightarrow>
      (\<exists>st1. refreshAccessToken_html pg = Returns False st1)"
      using fails by blast
    show "\<forall>resp st2. to_string (accessToken pg) = Ret s \<and> network pg = Some resp # tl (network pg) \<and>
      status_code resp = 401 \<and>
      refreshAccessToken_html (sent (authorized url options (''Bearer '' @ s)) pg) =
        Returns False st2 \<longrightarrow>
      (\<exists>st'. authenticatedFetch url options pg = Throws (Error ''Authentication required'') st' \<and>
             logged_out st' \<and> trace st' = trace st2)"
      using forced by blast
    show "\<forall>x st1. refreshAccessToken rt st = Throws x st1 \<longrightarrow>
      trace st1 = trace st @ [refresh_request rt] \<and> storage st1 = storage st \<and>
      logout_hidden st1 = logout_hidden st"
      using thrown by blast
    show "\<forall>x st1 t. runtime_lastError env = None \<and> map_of (storage st) ''auth_tokens'' = Some t \<and>
      js_gt (date_now env) (access_token_expiry t) \<and>
      refreshAccessToken (refresh_token t) st = Throws x st1 \<longrightarrow>
      (\<exists>st'. accessProtected env st = Returns () st' \<and> storage st' = storage st \<and>
             logout_hidden st' = logout_hidden st \<and>
             trace st' = trace st @ [refresh_request (refresh_token t)] \<and>
             status st' = Some (plus_error_message [] x, ''error''))"
      using surfaced by blast
    show "\<not> (\<exists>resp result. network st = Some resp # tl (network st) \<and> ok resp \<and>
          json_body resp = Some result \<and> get_prop result ''status'' = Ret (Str ''ok'')) \<longrightarrow>
      (\<exists>x. refreshAccessToken rt st = Throws x (sent (refresh_request rt) st))"
      using throws by blast
    show "\<forall>t. runtime_lastError env = None \<and> map_of (storage st) ''auth_tokens'' = Some t \<and>
      js_gt (date_now env) (access_token_expiry t) \<and>
      \<not> (\<exists>resp result. network st = Some resp # tl (network st) \<and> ok resp \<and>
            json_body resp = Some result \<and> get_prop result ''status'' = Ret (Str ''ok'')) \<longrightarrow>
      (\<exists>x st'. accessProtected env st = Returns () st' \<and> storage st' = storage st \<and>
             logout_hidden st' = logout_hidden st \<and>
             trace st' = trace st @ [refresh_request (refresh_token t)] \<and>
             status st' = Some (plus_error_message [] x, ''error''))"
      using shown by blast
  qed
qed

theorem failed_refresh_outcomes_witness:
  "(\<exists>st1. refreshAccessToken_html (welcomed [Some refresh_denied]) = Returns False st1 \<and>
      accessToken st1 = Str [] \<and> refreshToken st1 = Str [] \<and>
      map_of (localStorage st1) ''accessToken'' = None \<and>
      map_of (localStorage st1) ''refreshToken'' = None \<and>
      trace st1 = [refresh_request_html (Str ''r1'')]) \<and>
   (\<exists>x. refreshAccessToken (Str ''r1'') (signed_in [Some refresh_denied]) =
      Throws x (sent (refresh_request (Str ''r1'')) (signed_in [Some refresh_denied]))) \<and>
   (\<exists>x st'. accessProtected late (signed_in [Some refresh_denied]) = Returns () st' \<and>
      storage st' = [(''auth_tokens'', alice_pair)] \<and> logout_hidden st' = False \<and>
      trace st' = [refresh_request (Str ''r1'')] \<and>
      status st' = Some (plus_error_message [] x, ''error''))"
proof (intro conjI)
  let ?pg = "welcomed [Some refresh_denied]"
  have token: "\<not> falsy (refreshToken ?pg)" "refreshToken ?pg = Str ''r1''" "trace ?pg = []"
    by (simp_all add: welcomed_def falsy_def)
  have "\<forall>resp. network ?pg = Some resp # tl (network ?pg) \<longrightarrow> \<not> ok resp \<or> json_body resp = None"
    by (simp add: welcomed_def refresh_denied_def ok_def)
  with token failed_refresh_outcomes [of ?pg]
  show "\<exists>st1. refreshAccessToken_html ?pg = Returns False st1 \<and>
      accessToken st1 = Str [] \<and> refreshToken st1 = Str [] \<and>
      map_of (localStorage st1) ''accessToken'' = None \<and>
      map_of (localStorage st1) ''refreshToken'' = None \<and>
      trace st1 = [refresh_request_html (Str ''r1'')]"
    by fastforce
next
  let ?st = "signed_in [Some refresh_denied]"
  have denied: "\<not> (\<exists>resp result. network ?st = Some resp # tl (network ?st) \<and> ok resp \<and>
      json_body resp = Some result \<and> get_prop result ''status'' = Ret (Str ''ok''))"
    by (simp add: signed_in_def opened_def refresh_denied_def ok_def)
  with failed_refresh_outcomes [where st = ?st and rt = "Str ''r1''"]
  show "\<exists>x. refreshAccessToken (Str ''r1'') ?st = Throws x (sent (refresh_request (Str ''r1'')) ?st)"
    by blast
next
  let ?st = "signed_in [Some refresh_denied]"
  have denied: "\<not> (\<exists>resp result. network ?st = Some resp # tl (network ?st) \<and> ok resp \<and>
      json_body resp = Some result \<and> get_prop result ''status'' = Ret (Str ''ok''))"
    by (simp add: signed_in_def opened_def refresh_denied_def ok_def)
  have cached: "runtime_lastError late = None" "map_of (storage ?st) ''auth_tokens'' = Some alice_pair"
    "js_gt (date_now late) (access_token_expiry alice_pair)"
    by (simp_all add: late_def signed_in_def opened_def alice_pair_def js_gt_def)
  have start: "storage ?st = [(''auth_tokens'', alice_pair)]" "logout_hidden ?st = False"
    "trace ?st = []" "refresh_token alice_pair = Str ''r1''"
    by (simp_all add: signed_in_def opened_def alice_pair_def)
  from failed_refresh_outcomes [where st = ?st and env = late] cached denied
  have "\<exists>x st'. accessProtected late ?st = Returns () st' \<and> storage st' = storage ?st \<and>
      logout_hidden st' = logout_hidden ?st \<and>
      trace st' = trace ?st @ [refresh_request (refresh_token alice_pair)] \<and>
      status st' = Some (plus_error_message [] x, ''error'')"
    by blast
  with start show "\<exists>x st'. accessProtected late ?st = Returns () st' \<and>
      storage st' = [(''auth_tokens'', alice_pair)] \<and> logout_hidden st' = False \<and>
      trace st' = [refresh_request (Str ''r1'')] \<and>
      status st' = Some (plus_error_message [] x, ''error'')"
    by simp
qed

text \<open>
  C7 as stated fails in the extension: after a refresh denied with status 400 the stored
  pair is still in \<^verbatim>\<open>chrome.storage.local\<close> and the logout button is still shown.
\<close>

theorem failed_refresh_keeps_pair_counterexample:
  "map_option storage (final (accessProtected late (signed_in [Some refresh_denied]))) =
     Some [(''auth_tokens'', alice_pair)] \<and>
   map_option logout_hidden (final (accessProtected late (signed_in [Some refresh_denied]))) =
     Some False"
  by (simp add: accessProtected_def getAccessToken_def getStoredTokens_def late_def signed_in_def
      opened_def alice_pair_def js_gt_def refreshAccessToken_def fetch_def sent_def
      refresh_denied_def json_def ok_and_status_ok_def ok_def get_prop_def js_plus_def
      plus_error_message_def setStatus_def)

section \<open>The token cache\<close>

text \<open>
  C9, as amended. In the extension, \<open>storeTokens\<close> persists the pair together with the
  expiry derived from the access token whenever \<open>getTokenExpiry\<close> returns one, and a
  load after the store returns that pair; when \<open>getTokenExpiry\<close> throws, nothing is
  persisted. A load returns nothing when nothing is stored, and a load after the clear
  of \<open>logout\<close> returns nothing. These loads are the ones for which the browser
  reports no \<^verbatim>\<open>lastError\<close>; when it reports one, the load is rejected with it. In
  the page, \<open>storeTokens_html\<close> completes exactly when both tokens can be converted to
  strings; it keeps the two tokens in the variables, persists their strings under the
  two keys, and persists no expiry. \<open>loadTokens\<close> after that store, on any state of
  the page with that \<^verbatim>\<open>localStorage\<close>, returns the two strings, which are the
  stored tokens when these are strings. It returns two empty strings when nothing is
  stored, and after \<open>clearTokens\<close>.
\<close>

theorem token_cache_contract:
  "(getTokenExpiry a = Ret e \<and> runtime_lastError env = None \<longrightarrow>
      (\<exists>st'. storeTokens a r st = Returns () st' \<and>
             getStoredTokens env st' =
               Returns (Some \<lparr>access_token = a, refresh_token = r, access_token_expiry = e\<rparr>)
                 st')) \<and>
   (getTokenExpiry a = Throw x \<longrightarrow> storeTokens a r st = Throws x st) \<and>
   (runtime_lastError env = None \<and> map_of (storage st) ''auth_tokens'' = None \<longrightarrow>
      getStoredTokens env st = Returns None st) \<and>
   (runtime_lastError env = None \<longrightarrow>
      (\<exists>st'. logout st = Returns () st' \<and> getStoredTokens env st' = Returns None st')) \<and>
   (\<forall>m. runtime_lastError env = Some m \<longrightarrow> getStoredTokens env st = Throws (LastError m) st) \<and>
   ((\<exists>pg'. storeTokens_html pa pr pg = Returns () pg') =
      (\<exists>sa sr. to_string pa = Ret sa \<and> to_string pr = Ret sr)) \<and>
   (\<forall>sa sr. to_string pa = Ret sa \<and> to_string pr = Ret sr \<longrightarrow>
      (\<exists>pg'. storeTokens_html pa pr pg = Returns () pg' \<and>
             accessToken pg' = pa \<and> refreshToken pg' = pr \<and>
             localStorage pg' =
               AList.update ''refreshToken'' sr
                 (AList.update ''accessToken'' sa (localStorage pg)) \<and>
             (\<forall>q. localStorage q = localStorage pg' \<longrightarrow>
                accessToken (loadTokens q) = Str sa \<and> refreshToken (loadTokens q) = Str sr))) \<and>
   (\<exists>pg'. storeTokens_html (Str sa) (Str sr) pg = Returns () pg' \<and>
          accessToken pg' = Str sa \<and> refreshToken pg' = Str sr \<and>
          localStorage pg' =
            AList.update ''refreshToken'' sr (AList.update ''accessToken'' sa (localStorage pg)) \<and>
          (\<forall>q. localStorage q = localStorage pg' \<longrightarrow>
             accessToken (loadTokens q) = Str sa \<and> refreshToken (loadTokens q) = Str sr)) \<and>
   (map_of (localStorage pg) ''accessToken'' = None \<and>
    map_of (localStorage pg) ''refreshToken'' = None \<longrightarrow>
      accessToken (loadTokens pg) = Str [] \<and> refreshToken (loadTokens pg) = Str []) \<and>
   (\<forall>q. localStorage q = localStorage (clearTokens pg) \<longrightarrow>
      accessToken (loadTokens q) = Str [] \<and> refreshToken (loadTokens q) = Str [])"
proof -
  have completes: "(\<exists>pg'. storeTokens_html pa pr pg = Returns () pg') =
      (\<exists>sa sr. to_string pa = Ret sa \<and> to_string pr = Ret sr)"
    by (cases "to_string pa"; cases "to_string pr") (simp_all add: storeTokens_html_cases)
  have stored: "\<exists>pg'. storeTokens_html pa pr pg = Returns () pg' \<and>
      accessToken pg' = pa \<and> refreshToken pg' = pr \<and>
      localStorage pg' =
        AList.update ''refreshToken'' sr (AList.update ''accessToken'' sa (localStorage pg)) \<and>
      (\<forall>q. localStorage q = localStorage pg' \<longrightarrow>
         accessToken (loadTokens q) = Str sa \<and> refreshToken (loadTokens q) = Str sr)"
    if "to_string pa = Ret sa" "to_string pr = Ret sr" for sa sr
    using that by (simp add: storeTokens_html_cases loadTokens_simps update_conv')
  have rest: "(getTokenExpiry a = Ret e \<and> runtime_lastError env = None \<longrightarrow>
      (\<exists>st'. storeTokens a r st = Returns () st' \<and>
             getStoredTokens env st' =
               Returns (Some \<lparr>access_token = a, refresh_token = r, access_token_expiry = e\<rparr>)
                 st')) \<and>
   (getTokenExpiry a = Throw x \<longrightarrow> storeTokens a r st = Throws x st) \<and>
   (runtime_lastError env = None \<and> map_of (storage st) ''auth_tokens'' = None \<longrightarrow>
      getStoredTokens env st = Returns None st) \<and>
   (runtime_lastError env = None \<longrightarrow>
      (\<exists>st'. logout st = Returns () st' \<and> getStoredTokens env st' = Returns None st')) \<and>
   (\<forall>m. runtime_lastError env = Some m \<longrightarrow> getStoredTokens env st = Throws (LastError m) st)"
    by (simp add: storeTokens_cases getStoredTokens_def logout_def hideLogoutButton_def
        setStatus_def update_conv' delete_conv')
  have strings: "\<exists>pg'. storeTokens_html (Str sa) (Str sr) pg = Returns () pg' \<and>
          accessToken pg' = Str sa \<and> refreshToken pg' = Str sr \<and>
          localStorage pg' =
            AList.update ''refreshToken'' sr (AList.update ''accessToken'' sa (localStorage pg)) \<and>
          (\<forall>q. localStorage q = localStorage pg' \<longrightarrow>
             accessToken (loadTokens q) = Str sa \<and> refreshToken (loadTokens q) = Str sr)"
    by (simp add: storeTokens_html_cases loadTokens_simps update_conv')
  have empty: "(map_of (localStorage pg) ''accessToken'' = None \<and>
    map_of (localStorage pg) ''refreshToken'' = None \<longrightarrow>
      accessToken (loadTokens pg) = Str [] \<and> refreshToken (loadTokens pg) = Str []) \<and>
   (\<forall>q. localStorage q = localStorage (clearTokens pg) \<longrightarrow>
      accessToken (loadTokens q) = Str [] \<and> refreshToken (loadTokens q) = Str [])"
    by (simp add: loadTokens_simps delete_conv')
  from rest completes stored strings empty show ?thesis
    by (intro conjI allI impI) blast+
qed

theorem token_cache_contract_witness:
  "(\<exists>st'. storeTokens (Str alice_token) (Str ''r1'') opened = Returns () st' \<and>
      getStoredTokens early st' = Returns (Some alice_pair) st') \<and>
   (\<exists>pg'. storeTokens_html (Number 7) Null (loaded []) = Returns () pg' \<and>
      accessToken pg' = Number 7 \<and> refreshToken pg' = Null \<and>
      accessToken (loadTokens pg') = Str ''7'' \<and> refreshToken (loadTokens pg') = Str ''null'')"
proof (rule conjI)
  have "runtime_lastError early = None"
    by (simp add: early_def)
  with alice_token_expiry
    token_cache_contract [where a = "Str alice_token" and e = "Num 1700000000000" and env = early
      and r = "Str ''r1''" and st = opened]
  show "\<exists>st'. storeTokens (Str alice_token) (Str ''r1'') opened = Returns () st' \<and>
      getStoredTokens early st' = Returns (Some alice_pair) st'"
    by (simp add: alice_pair_def)
next
  have seven: "to_string (Number 7) = Ret ''7''"
    by code_simp
  have "to_string Null = Ret ''null''"
    by simp
  with seven token_cache_contract [where pa = "Number 7" and pr = Null and pg = "loaded []"]
  show "\<exists>pg'. storeTokens_html (Number 7) Null (loaded []) = Returns () pg' \<and>
      accessToken pg' = Number 7 \<and> refreshToken pg' = Null \<and>
      accessToken (loadTokens pg') = Str ''7'' \<and> refreshToken (loadTokens pg') = Str ''null''"
    by blast
qed

text \<open>
  C9 as stated fails in the page, whose store persists the two tokens and no expiry, and
  whose load after a store of tokens that are not strings (the page stores the members
  of the answer unchecked) returns their strings, not what was stored: after a store of
  \<^verbatim>\<open>undefined\<close> and \<^verbatim>\<open>null\<close> the load gives the texts \<^verbatim>\<open>undefined\<close> and
  \<^verbatim>\<open>null\<close>. It fails in the extension for an access token without a payload, for
  which the store persists nothing.
\<close>

theorem page_store_without_expiry_counterexample:
  "storeTokens_html (Str alice_token) (Str ''r1'') (loaded []) =
     Returns ()
       ((loaded [])
          \<lparr>accessToken := Str alice_token, refreshToken := Str ''r1'',
           localStorage := [(''accessToken'', alice_token), (''refreshToken'', ''r1'')]\<rparr>) \<and>
   storeTokens_html Undefined Null (loaded []) =
     Returns ()
       ((loaded [])
          \<lparr>accessToken := Undefined, refreshToken := Null,
           localStorage := [(''accessToken'', ''undefined''), (''refreshToken'', ''null'')]\<rparr>) \<and>
   accessToken
     (loadTokens
        ((loaded [])
           \<lparr>localStorage := [(''accessToken'', ''undefined''), (''refreshToken'', ''null'')]\<rparr>)) =
     Str ''undefined'' \<and>
   refreshToken
     (loadTokens
        ((loaded [])
           \<lparr>localStorage := [(''accessToken'', ''undefined''), (''refreshToken'', ''null'')]\<rparr>)) =
     Str ''null'' \<and>
   storeTokens (Str ''abc'') (Str ''r1'') opened = Throws InvalidCharacterError opened"
  by (simp add: storeTokens_html_cases loaded_def storeTokens_cases abc_expiry loadTokens_simps)

section \<open>One pair, replaced and deleted as a whole\<close>




end
